theory Spec2Isabelle
  imports Main
begin

section \<open>The dashcam admin console: call signalling and media session\<close>

text \<open>
  The repository holds three variants of one React component \<open>App\<close>. The development
  follows two of them: \<open>src/unnamed/part_001\<close> (the variant with \<open>parseIceCandidate\<close>,
  whose functions keep their source names here) and \<open>src/src/App.tsx\<close> (functions that
  differ there carry the suffix \<open>_App\<close>). \<open>endCall\<close> and \<open>updateLevel\<close> are the same text
  in both.

  JavaScript strings are modelled as \<open>string\<close>: code units below 256, which covers the
  ASCII wire format of ICE candidates.
\<close>

subsection \<open>Regular expressions of \<open>parseIceCandidate\<close>\<close>

text \<open>
  The character classes the source's patterns use. Within Latin-1, \<open>\s\<close> is TAB, LF, VT,
  FF, CR, space and NBSP; \<open>.\<close> is every character but the line terminators LF and CR.
\<close>

datatype cclass = NonSpace | Digit | Word | AnyChar

definition is_space :: "char \<Rightarrow> bool" where
  "is_space c \<longleftrightarrow> c \<in> set [CHR 0x09, CHR 0x0A, CHR 0x0B, CHR 0x0C, CHR 0x0D, CHR 0x20, CHR 0xA0]"

definition is_digit :: "char \<Rightarrow> bool" where
  "is_digit c \<longleftrightarrow> c \<in> set ''0123456789''"

definition is_word :: "char \<Rightarrow> bool" where
  "is_word c \<longleftrightarrow>
     c \<in> set ''abcdefghijklmnopqrstuvwxyzABCDEFGHIJKLMNOPQRSTUVWXYZ0123456789_''"

definition is_line_terminator :: "char \<Rightarrow> bool" where
  "is_line_terminator c \<longleftrightarrow> c \<in> set [CHR 0x0A, CHR 0x0D]"

fun in_class :: "cclass \<Rightarrow> char \<Rightarrow> bool" where
  "in_class NonSpace c = (\<not> is_space c)"
| "in_class Digit c = is_digit c"
| "in_class Word c = is_word c"
| "in_class AnyChar c = (\<not> is_line_terminator c)"

text \<open>
  A pattern is a sequence of literals and captured greedy repetitions of one character
  class (\<open>Rep c 1\<close> is \<open>(c+)\<close>, \<open>Rep c 0\<close> is \<open>(c*)\<close>): every quantifier of the source's
  patterns stands in a capture group of its own.
\<close>

datatype ritem = Lit string | Rep cclass nat

fun first_some :: "('a \<Rightarrow> 'b option) \<Rightarrow> 'a list \<Rightarrow> 'b option" where
  "first_some f [] = None"
| "first_some f (x # xs) = (case f x of Some y \<Rightarrow> Some y | None \<Rightarrow> first_some f xs)"

text \<open>
  \<open>match_here\<close> matches a pattern at the start of a string and returns the capture
  groups. A repetition first takes the longest run of its class and gives characters
  back one at a time while the rest of the pattern fails, as the backtracking matcher of
  JavaScript does.
\<close>

primrec match_here :: "ritem list \<Rightarrow> string \<Rightarrow> string list option" where
  "match_here [] s = Some []"
| "match_here (it # its) s =
     (case it of
        Lit l \<Rightarrow>
          (if take (length l) s = l then match_here its (drop (length l) s) else None)
      | Rep c lo \<Rightarrow>
          first_some
            (\<lambda>n. map_option ((#) (take n s)) (match_here its (drop n s)))
            (rev [lo ..< Suc (length (takeWhile (in_class c) s))]))"

text \<open>\<open>String.prototype.match\<close> without the \<open>g\<close> flag: the leftmost start that matches.\<close>

definition js_match :: "ritem list \<Rightarrow> string \<Rightarrow> string list option" where
  "js_match p s = first_some (\<lambda>i. match_here p (drop i s)) [0 ..< Suc (length s)]"

text \<open>\<open>/candidate:(\S+) (\d+) (\w+) (\d+) (\S+) (\d+) typ (\w+)(.*)/\<close>\<close>

definition candidate_re :: "ritem list" where
  "candidate_re =
     [Lit ''candidate:'', Rep NonSpace 1, Lit '' '', Rep Digit 1, Lit '' '', Rep Word 1,
      Lit '' '', Rep Digit 1, Lit '' '', Rep NonSpace 1, Lit '' '', Rep Digit 1,
      Lit '' typ '', Rep Word 1, Rep AnyChar 0]"

text \<open>\<open>/sdpMid (\S+)/\<close>, \<open>/sdpMLineIndex (\d+)/\<close> and \<open>/ufrag (\S+)/\<close>\<close>

definition sdpMid_re :: "ritem list" where
  "sdpMid_re = [Lit ''sdpMid '', Rep NonSpace 1]"

definition sdpMLineIndex_re :: "ritem list" where
  "sdpMLineIndex_re = [Lit ''sdpMLineIndex '', Rep Digit 1]"

definition ufrag_re :: "ritem list" where
  "ufrag_re = [Lit ''ufrag '', Rep NonSpace 1]"

subsection \<open>Candidates on the wire\<close>

text \<open>
  A field of a JSON object read by JavaScript: absent (\<open>undefined\<close>), \<open>null\<close>, or a value.
\<close>

datatype 'a jsval = Undefined | Null | Val 'a

text \<open>
  A JavaScript number that came from a string of decimal digits. Every integer up to
  \<open>2 ^ 53\<close> is a double, so such a value is the number itself (\<open>Exact\<close>). Beyond that
  \<open>parseInt\<close> yields a double near the value, and past 20 significant digits which one
  is up to the engine; the model then keeps the digits (\<open>Rounded\<close>) and computes no
  value.
\<close>

datatype js_number = Exact nat | Rounded string

record candidate_init =
  candidate :: "string jsval"
  sdpMid :: "string jsval"
  sdpMLineIndex :: "js_number jsval"
  usernameFragment :: "string jsval"

datatype wire_candidate = CandString string | CandObject candidate_init

text \<open>\<open>parseInt\<close> on a non-empty string of decimal digits.\<close>

definition digit_val :: "char \<Rightarrow> int" where
  "digit_val c = of_char c - 48"

definition decimal :: "string \<Rightarrow> int" where
  "decimal ds = foldl (\<lambda>n c. 10 * n + digit_val c) 0 ds"

definition parseInt :: "string \<Rightarrow> js_number" where
  "parseInt ds = (if decimal ds \<le> 2 ^ 53 then Exact (nat (decimal ds)) else Rounded ds)"

text \<open>\<open>rest.match(re)?.[1]\<close>: the first capture group, when the pattern matches.\<close>

definition group1 :: "ritem list \<Rightarrow> string \<Rightarrow> string option" where
  "group1 re s = (case js_match re s of Some (g # _) \<Rightarrow> Some g | _ \<Rightarrow> None)"

text \<open>
  \<open>parseIceCandidate\<close> (part_001, lines 16-38). \<open>None\<close> is the source's \<open>null\<close>. Nothing in
  the \<open>try\<close> block can throw on a string, so the \<open>catch\<close> branch (which returns \<open>null\<close> as
  well) has no input that reaches it.
\<close>

definition parseIceCandidate :: "wire_candidate \<Rightarrow> candidate_init option" where
  "parseIceCandidate c =
     (case c of
        CandString str \<Rightarrow>
          (case js_match candidate_re str of
             Some [foundation, component, protocol, priority, ip, port, type, rest] \<Rightarrow>
               Some \<lparr> candidate = Val (''candidate:'' @ foundation @ '' '' @ component @ '' ''
                          @ protocol @ '' '' @ priority @ '' '' @ ip @ '' '' @ port
                          @ '' typ '' @ type @ rest),
                      sdpMid = Val (case group1 sdpMid_re rest of Some m \<Rightarrow> m | None \<Rightarrow> ''0''),
                      sdpMLineIndex =
                        Val (parseInt (case group1 sdpMLineIndex_re rest of
                                         Some d \<Rightarrow> d | None \<Rightarrow> ''0'')),
                      usernameFragment =
                        (case group1 ufrag_re rest of Some u \<Rightarrow> Val u | None \<Rightarrow> Undefined) \<rparr>
           | _ \<Rightarrow> None)
      | CandObject obj \<Rightarrow> Some obj)"

subsection \<open>The grammar of a legacy candidate string, as the specification words it\<close>

text \<open>
  \<open>candidate:<foundation> <component> <protocol> <priority> <ip> <port> typ <type><rest>\<close>:
  the string starts with \<open>candidate:\<close>; foundation and ip are non-empty runs of
  non-space characters, component, priority and port non-empty runs of digits, protocol
  and type non-empty runs of word characters, and the rest is free.
\<close>

definition legacy_grammar :: "string \<Rightarrow> bool" where
  "legacy_grammar s \<longleftrightarrow>
     (\<exists>foundation component protocol priority ip port type rest.
        s = ''candidate:'' @ foundation @ '' '' @ component @ '' '' @ protocol @ '' ''
              @ priority @ '' '' @ ip @ '' '' @ port @ '' typ '' @ type @ rest
        \<and> foundation \<noteq> [] \<and> list_all (\<lambda>c. \<not> is_space c) foundation
        \<and> component \<noteq> [] \<and> list_all is_digit component
        \<and> protocol \<noteq> [] \<and> list_all is_word protocol
        \<and> priority \<noteq> [] \<and> list_all is_digit priority
        \<and> ip \<noteq> [] \<and> list_all (\<lambda>c. \<not> is_space c) ip
        \<and> port \<noteq> [] \<and> list_all is_digit port
        \<and> type \<noteq> [] \<and> list_all is_word type)"

text \<open>
  The source's pattern carries no anchor, so \<open>match\<close> looks for the grammar at every
  position: a string qualifies when some text, possibly empty, is followed by an instance
  of the grammar.
\<close>

definition contains_legacy :: "string \<Rightarrow> bool" where
  "contains_legacy s \<longleftrightarrow> (\<exists>pre tail. s = pre @ tail \<and> legacy_grammar tail)"

subsection \<open>Browser objects and the component's state\<close>

record js_error =
  err_name :: string
  err_message :: string

text \<open>A \<open>MediaStreamTrack\<close> of a local capture; \<open>getUserMedia\<close> resolves to a list of them.\<close>

record track =
  kind :: string
  stopped :: bool

record session_description =
  sd_type :: string
  sd_sdp :: string

record ice_server =
  urls :: string
  username :: "string option"
  credential :: "string option"

text \<open>
  What the callbacks installed on a connection by the \<open>ready\<close> branch close over: the
  relay id \<open>from\<close>, and the \<open>isVideoCall\<close> of the render whose effect registered the
  socket handler (\<open>handleTrackReceived\<close> reads it).
\<close>

record pc_handlers =
  h_from :: string
  h_video :: bool

text \<open>
  An \<open>RTCPeerConnection\<close>. \<open>senders\<close> lists the \<open>addTrack(track, stream)\<close> calls as (address
  of the local stream, index of the track); \<open>addIceCandidate_calls\<close> lists the candidates
  handed to the transport engine, oldest first.
\<close>

record peer_connection =
  iceServers :: "ice_server list"
  closed :: bool
  connectionState :: string
  iceConnectionState :: string
  localDescription :: "session_description option"
  remoteDescription :: "session_description option"
  senders :: "(nat \<times> nat) list"
  addIceCandidate_calls :: "candidate_init list"
  handlers :: "pc_handlers option"

definition RTCPeerConnection :: "ice_server list \<Rightarrow> peer_connection" where
  "RTCPeerConnection servers =
     \<lparr> iceServers = servers, closed = False, connectionState = ''new'',
       iceConnectionState = ''new'', localDescription = None, remoteDescription = None,
       senders = [], addIceCandidate_calls = [], handlers = None \<rparr>"

definition stun :: "string \<Rightarrow> ice_server" where
  "stun u = \<lparr> urls = u, username = None, credential = None \<rparr>"

definition iceServers_App :: "ice_server list" where
  "iceServers_App =
     [stun ''stun:stun.l.google.com:19302'', stun ''stun:stun1.l.google.com:19302'',
      stun ''stun:stun2.l.google.com:19302'']"

definition iceServers_p1 :: "ice_server list" where
  "iceServers_p1 =
     iceServers_App @
     [\<lparr> urls = ''turn:openrelay.metered.ca:80'', username = Some ''openrelay'',
        credential = Some ''openrelay'' \<rparr>]"

text \<open>
  What a media element plays: a remote stream of the track event (\<open>event.streams[0]\<close>,
  part_001) or a fresh \<open>new MediaStream([event.track])\<close> (App.tsx).
\<close>

datatype media_source = RemoteStream nat | TrackStream nat

record media_element =
  srcObject :: "media_source option"
  muted :: bool
  listeners :: bool
  play_calls :: nat

record track_event =
  ev_kind :: string
  ev_track :: nat
  ev_streams :: "nat list"

datatype payload =
    DeviceId string
  | To string
  | Description string session_description
  | IceCandidate string candidate_init

datatype timer_action = SetStatusReady | AttachVideo nat

text \<open>
  The component instance and what it reaches: the refs, the React state variables, the
  objects behind the refs (\<open>pcs\<close> and \<open>local_streams\<close> are stores addressed by index, so
  that an object no ref points to any more is still there), the session storage entry
  \<open>dashcam-socket-id\<close>, and logs of the effects on the outside: the messages given to
  \<open>socket.emit\<close> (oldest first), the pending \<open>setTimeout\<close> callbacks with their delays, and
  the number of \<open>getUserMedia\<close> calls.
\<close>

record state =
  pcs :: "peer_connection list"
  pcRef :: "nat option"
  audioRef :: "media_element option"
  videoRef :: "media_element option"
  local_streams :: "track list list"
  localStreamRef :: "nat option"
  callStatus :: string
  audioLevel :: nat
  isCallActive :: bool
  isVideoCall :: bool
  videoStats :: string
  storage :: "string option"
  emitted :: "(string \<times> payload) list"
  timers :: "(nat \<times> timer_action) list"
  getUserMedia_calls :: nat

definition upd_pc :: "nat \<Rightarrow> (peer_connection \<Rightarrow> peer_connection) \<Rightarrow> state \<Rightarrow> state" where
  "upd_pc i f s = s\<lparr> pcs := (pcs s)[i := f (pcs s ! i)] \<rparr>"

definition emit :: "string \<Rightarrow> payload \<Rightarrow> state \<Rightarrow> state" where
  "emit ev p s = s\<lparr> emitted := emitted s @ [(ev, p)] \<rparr>"

definition setCallStatus :: "string \<Rightarrow> state \<Rightarrow> state" where
  "setCallStatus msg s = s\<lparr> callStatus := msg \<rparr>"

text \<open>
  The outcomes of the asynchronous browser calls one handler run awaits. A handler is
  modelled as running to completion: what other events do between its \<open>await\<close>s is not
  part of the model.
\<close>

record env =
  getUserMedia_result :: "js_error + track list"
  createOffer_result :: "js_error + string"
  setLocalDescription_result :: "js_error + unit"
  setRemoteDescription_result :: "js_error + unit"
  addIceCandidate_result :: "js_error + unit"

text \<open>The \<open>data\<close> of a relay message: an object whose fields the handlers probe.\<close>

record signal_data =
  d_type :: "string jsval"
  d_sdp :: "string jsval"
  d_candidate :: "wire_candidate jsval"

text \<open>JavaScript truthiness of \<open>data.candidate\<close> and of a string field.\<close>

fun truthy_candidate :: "wire_candidate jsval \<Rightarrow> bool" where
  "truthy_candidate (Val (CandString str)) = (str \<noteq> [])"
| "truthy_candidate (Val (CandObject obj)) = True"
| "truthy_candidate _ = False"

fun truthy_string :: "string jsval \<Rightarrow> bool" where
  "truthy_string (Val str) = (str \<noteq> [])"
| "truthy_string _ = False"

text \<open>
  \<open>new RTCIceCandidate(init)\<close> throws a \<open>TypeError\<close> when \<open>sdpMid\<close> and \<open>sdpMLineIndex\<close> are
  both null or undefined.
\<close>

definition RTCIceCandidate :: "candidate_init \<Rightarrow> js_error + candidate_init" where
  "RTCIceCandidate init =
     (if sdpMid init \<in> {Undefined, Null} \<and> sdpMLineIndex init \<in> {Undefined, Null}
      then Inl \<lparr> err_name = ''TypeError'', err_message = ''sdpMid and sdpMLineIndex are both null'' \<rparr>
      else Inr init)"

text \<open>
  \<open>await pc.addIceCandidate(new RTCIceCandidate(c))\<close> on the connection at address \<open>i\<close>:
  the state afterwards, and the error thrown if any.
\<close>

definition addIceCandidate :: "env \<Rightarrow> nat \<Rightarrow> candidate_init \<Rightarrow> state \<Rightarrow> state \<times> js_error option" where
  "addIceCandidate e i c s =
     (case RTCIceCandidate c of
        Inl err \<Rightarrow> (s, Some err)
      | Inr c' \<Rightarrow>
          (upd_pc i (\<lambda>p. p\<lparr> addIceCandidate_calls := addIceCandidate_calls p @ [c'] \<rparr>) s,
           case addIceCandidate_result e of Inl err \<Rightarrow> Some err | Inr _ \<Rightarrow> None))"

subsection \<open>The call controller\<close>

text \<open>\<open>startAudioCall\<close> and \<open>startVideoCall\<close> of part_001 (lines 40-66).\<close>

definition startAudioCall :: "js_error + track list \<Rightarrow> state \<Rightarrow> state" where
  "startAudioCall gum s =
     (let s1 = (setCallStatus ''Initiating audio call via socket...'' s)
                 \<lparr> getUserMedia_calls := Suc (getUserMedia_calls s) \<rparr>
      in case gum of
           Inr stream \<Rightarrow>
             (emit ''start-call'' (DeviceId ''dashcam-001'')
                (s1\<lparr> local_streams := local_streams s1 @ [stream],
                     localStreamRef := Some (length (local_streams s1)) \<rparr>))
               \<lparr> isCallActive := True, isVideoCall := False \<rparr>
         | Inl err \<Rightarrow>
             setCallStatus (''Microphone error: '' @ err_name err @ '' - '' @ err_message err) s1)"

definition startVideoCall :: "state \<Rightarrow> state" where
  "startVideoCall s =
     (emit ''start-video-call'' (DeviceId ''dashcam-001'')
        (setCallStatus ''Initiating video call via socket...'' s))
       \<lparr> isCallActive := True, isVideoCall := True \<rparr>"

text \<open>\<open>startAudioCall\<close> and \<open>startVideoCall\<close> of App.tsx (lines 15-27).\<close>

definition startAudioCall_App :: "state \<Rightarrow> state" where
  "startAudioCall_App s =
     (emit ''start-call'' (DeviceId ''dashcam-002'')
        (setCallStatus ''Initiating audio call via socket...'' s))
       \<lparr> isCallActive := True, isVideoCall := False \<rparr>"

definition startVideoCall_App :: "state \<Rightarrow> state" where
  "startVideoCall_App s =
     (emit ''start-video-call'' (DeviceId ''dashcam-002'')
        (setCallStatus ''Initiating video call via socket...'' s))
       \<lparr> isCallActive := True, isVideoCall := True \<rparr>"

text \<open>
  \<open>endCall\<close> (part_001 lines 68-100, App.tsx lines 29-61: the same text). \<open>close()\<close> marks
  the connection closed; the last statement leaves a timer of 2000 ms behind.
\<close>

definition close_pc :: "peer_connection \<Rightarrow> peer_connection" where
  "close_pc p = p\<lparr> closed := True, connectionState := ''closed'', iceConnectionState := ''closed'' \<rparr>"

definition stop_track :: "track \<Rightarrow> track" where
  "stop_track t = t\<lparr> stopped := True \<rparr>"

definition endCall :: "state \<Rightarrow> state" where
  "endCall s =
     (let s1 = (case pcRef s of
                  Some i \<Rightarrow>
                    (let remoteSocketId =
                           (case remoteDescription (pcs s ! i) of
                              Some d \<Rightarrow>
                                (if sd_type d \<noteq> []
                                 then (case storage s of Some v \<Rightarrow> if v \<noteq> [] then v else [] | None \<Rightarrow> [])
                                 else [])
                            | None \<Rightarrow> [])
                     in (upd_pc i close_pc
                           (emit (if isVideoCall s then ''end-video-call'' else ''end-call'')
                              (To remoteSocketId) s))
                          \<lparr> pcRef := None \<rparr>)
                | None \<Rightarrow> s);
          s2 = s1\<lparr> audioRef := map_option (\<lambda>el. el\<lparr> srcObject := None \<rparr>) (audioRef s1) \<rparr>;
          s3 = s2\<lparr> videoRef := map_option (\<lambda>el. el\<lparr> srcObject := None \<rparr>) (videoRef s2) \<rparr>;
          s4 = (case localStreamRef s3 of
                  Some j \<Rightarrow>
                    s3\<lparr> local_streams :=
                          (local_streams s3)[j := map stop_track (local_streams s3 ! j)],
                        localStreamRef := None \<rparr>
                | None \<Rightarrow> s3)
      in s4\<lparr> callStatus := ''Call ended'', isCallActive := False, isVideoCall := False,
             audioLevel := 0, videoStats := [],
             timers := timers s4 @ [(2000, SetStatusReady)] \<rparr>)"

text \<open>
  The three buttons (part_001 lines 494-539, App.tsx lines 400-445): the start buttons
  carry \<open>disabled={isCallActive}\<close>, the end button \<open>disabled={!isCallActive}\<close>, and a
  disabled button dispatches no click.
\<close>

definition click_startAudioCall :: "js_error + track list \<Rightarrow> state \<Rightarrow> state" where
  "click_startAudioCall gum s = (if isCallActive s then s else startAudioCall gum s)"

definition click_startVideoCall :: "state \<Rightarrow> state" where
  "click_startVideoCall s = (if isCallActive s then s else startVideoCall s)"

definition click_startAudioCall_App :: "state \<Rightarrow> state" where
  "click_startAudioCall_App s = (if isCallActive s then s else startAudioCall_App s)"

definition click_startVideoCall_App :: "state \<Rightarrow> state" where
  "click_startVideoCall_App s = (if isCallActive s then s else startVideoCall_App s)"

definition click_endCall :: "state \<Rightarrow> state" where
  "click_endCall s = (if \<not> isCallActive s then s else endCall s)"

subsection \<open>The media session\<close>

text \<open>\<open>pcRef.current?.connectionState === "connected"\<close>\<close>

definition pc_connected :: "state \<Rightarrow> bool" where
  "pc_connected s =
     (case pcRef s of Some i \<Rightarrow> connectionState (pcs s ! i) = ''connected'' | None \<Rightarrow> False)"

text \<open>
  \<open>updateLevel\<close> (part_001 lines 112-119, App.tsx lines 73-80). \<open>level\<close> is the value of
  \<open>Math.round((average / 255) * 100)\<close>, a floating-point computation on the analyser's
  bytes that the caller supplies. The result is the state, the sample given to
  \<open>setAudioLevel\<close> if any, and whether \<open>requestAnimationFrame(updateLevel)\<close> was called.
\<close>

definition updateLevel :: "nat \<Rightarrow> state \<Rightarrow> state \<times> nat option \<times> bool" where
  "updateLevel level s =
     (if pc_connected s then (s\<lparr> audioLevel := level \<rparr>, Some level, True)
      else (s, None, False))"

text \<open>
  The loop that \<open>setupAudioLevelMonitoring\<close> starts by calling \<open>updateLevel()\<close>: one entry of
  the list per animation frame, holding what the rest of the program does to the state
  before that frame's callback runs and the level measured in it. The result lists the
  runs of \<open>updateLevel\<close>: the state each found, its sample, and whether it asked for
  another frame. A run that did not ask is the last.
\<close>

fun monitor :: "((state \<Rightarrow> state) \<times> nat) list \<Rightarrow> state \<Rightarrow> (state \<times> nat option \<times> bool) list" where
  "monitor [] s = []"
| "monitor ((between, level) # frames) s =
     (let s0 = between s;
          r = updateLevel level s0
      in (s0, snd r) # (if snd (snd r) then monitor frames (fst r) else []))"

definition setupAudioLevelMonitoring ::
    "((state \<Rightarrow> state) \<times> nat) list \<Rightarrow> state \<Rightarrow> (state \<times> nat option \<times> bool) list" where
  "setupAudioLevelMonitoring frames s = monitor frames s"

text \<open>
  \<open>handleTrackReceived\<close> of part_001 (lines 124-168), up to the calls of \<open>play()\<close>. Its
  first argument is the \<open>isVideoCall\<close> the closure captured. \<open>listeners\<close> stands for the
  three event handlers set on the video element.
\<close>

definition remoteStream :: "track_event \<Rightarrow> media_source option" where
  "remoteStream ev = (case ev_streams ev of [] \<Rightarrow> None | x # _ \<Rightarrow> Some (RemoteStream x))"

definition handleTrackReceived :: "bool \<Rightarrow> track_event \<Rightarrow> state \<Rightarrow> state" where
  "handleTrackReceived isVideoCall_c ev s =
     (let s1 = (if ev_kind ev = ''video'' \<and> videoRef s \<noteq> None \<and> isVideoCall_c
                then s\<lparr> videoRef :=
                         map_option
                           (\<lambda>el. el\<lparr> srcObject := remoteStream ev, muted := True,
                                     listeners := True, play_calls := Suc (play_calls el) \<rparr>)
                           (videoRef s) \<rparr>
                else s)
      in if ev_kind ev = ''audio'' \<and> audioRef s1 \<noteq> None
         then s1\<lparr> audioRef :=
                   map_option
                     (\<lambda>el. el\<lparr> srcObject := remoteStream ev, play_calls := Suc (play_calls el) \<rparr>)
                     (audioRef s1) \<rparr>
         else s1)"

text \<open>The continuations of the two \<open>play()\<close> promises (part_001 lines 149-155, 160-166).\<close>

definition video_play_settled :: "js_error option \<Rightarrow> state \<Rightarrow> state" where
  "video_play_settled r s =
     (case r of None \<Rightarrow> setCallStatus ''Video connected and playing'' s
              | Some err \<Rightarrow> setCallStatus ''Video ready - Click to play'' s)"

definition audio_play_rejected :: "js_error \<Rightarrow> state \<Rightarrow> state" where
  "audio_play_rejected err s = setCallStatus (''Audio play error: '' @ err_message err) s"

text \<open>
  \<open>handleTrackReceived\<close> of App.tsx (lines 85-127): the video element is bound 100 ms
  later, by a timer that checks \<open>videoRef.current\<close> again; there is no test of
  \<open>isVideoCall\<close>.
\<close>

definition handleTrackReceived_App :: "track_event \<Rightarrow> state \<Rightarrow> state" where
  "handleTrackReceived_App ev s =
     (let s1 = (if ev_kind ev = ''video'' \<and> videoRef s \<noteq> None
                then s\<lparr> timers := timers s @ [(100, AttachVideo (ev_track ev))] \<rparr>
                else s)
      in if ev_kind ev = ''audio'' \<and> audioRef s1 \<noteq> None
         then s1\<lparr> audioRef :=
                   map_option
                     (\<lambda>el. el\<lparr> srcObject := Some (TrackStream (ev_track ev)),
                               play_calls := Suc (play_calls el) \<rparr>)
                     (audioRef s1) \<rparr>
         else s1)"



subsection \<open>The negotiator: the relay's signalling messages\<close>

text \<open>
  The tail every \<open>ready\<close> branch ends with: \<open>createOffer\<close>, \<open>setLocalDescription\<close>, the
  offer sent to \<open>from\<close> on the handler's channel, the status. A handler body returns the
  state it reached and the error it threw, if any; the handler's \<open>catch\<close> then sets the
  status, and what the body did before throwing stays done.
\<close>

definition send_offer ::
    "env \<Rightarrow> nat \<Rightarrow> string \<Rightarrow> string \<Rightarrow> string \<Rightarrow> state \<Rightarrow> state \<times> js_error option" where
  "send_offer e i channel from status s =
     (case createOffer_result e of
        Inl err \<Rightarrow> (s, Some err)
      | Inr sdp \<Rightarrow>
          (case setLocalDescription_result e of
             Inl err \<Rightarrow> (s, Some err)
           | Inr _ \<Rightarrow>
               (let d = \<lparr> sd_type = ''offer'', sd_sdp = sdp \<rparr>
                in (setCallStatus status
                      (emit channel (Description from d)
                         (upd_pc i (\<lambda>p. p\<lparr> localDescription := Some d \<rparr>) s)),
                    None))))"

text \<open>The \<open>answer\<close> branch: \<open>setRemoteDescription(new RTCSessionDescription(data))\<close>.\<close>

definition apply_answer :: "env \<Rightarrow> signal_data \<Rightarrow> string \<Rightarrow> state \<Rightarrow> state \<times> js_error option" where
  "apply_answer e data status s =
     (case pcRef s of
        None \<Rightarrow> (s, None)
      | Some i \<Rightarrow>
          (case setRemoteDescription_result e of
             Inl err \<Rightarrow> (s, Some err)
           | Inr _ \<Rightarrow>
               (setCallStatus status
                  (upd_pc i
                     (\<lambda>p. p\<lparr> remoteDescription :=
                                Some \<lparr> sd_type = ''answer'',
                                       sd_sdp = (case d_sdp data of Val x \<Rightarrow> x | _ \<Rightarrow> []) \<rparr> \<rparr>)
                     s),
                None)))"

text \<open>
  The candidate branch of part_001 (lines 281-290, 382-391): decode, then hand the
  candidate to the engine if there is a connection with a remote description; otherwise
  only a console warning.
\<close>

definition candidate_branch :: "env \<Rightarrow> signal_data \<Rightarrow> state \<Rightarrow> state \<times> js_error option" where
  "candidate_branch e data s =
     (case d_candidate data of
        Val c \<Rightarrow>
          (case parseIceCandidate c of
             Some cand \<Rightarrow>
               (case pcRef s of
                  Some i \<Rightarrow>
                    (if remoteDescription (pcs s ! i) \<noteq> None then addIceCandidate e i cand s
                     else (s, None))
                | None \<Rightarrow> (s, None))
           | None \<Rightarrow> (s, None))
      | _ \<Rightarrow> (s, None))"

text \<open>
  The candidate branch of App.tsx (lines 214-221, 293-300): no decoding; the candidate
  must be an object with a non-empty \<open>candidate\<close> string and with \<open>sdpMid\<close> and
  \<open>sdpMLineIndex\<close> not undefined.
\<close>

definition candidate_branch_App :: "env \<Rightarrow> signal_data \<Rightarrow> state \<Rightarrow> state \<times> js_error option" where
  "candidate_branch_App e data s =
     (case pcRef s of
        Some i \<Rightarrow>
          (case d_candidate data of
             Val (CandObject obj) \<Rightarrow>
               (if remoteDescription (pcs s ! i) \<noteq> None \<and> truthy_string (candidate obj)
                   \<and> sdpMid obj \<noteq> Undefined \<and> sdpMLineIndex obj \<noteq> Undefined
                then addIceCandidate e i obj s
                else (s, None))
           | _ \<Rightarrow> (s, None))
      | None \<Rightarrow> (s, None))"

text \<open>
  \<open>new RTCPeerConnection(...)\<close> stored in \<open>pcRef.current\<close>: the new object gets the next
  free address, and nothing is done to the object \<open>pcRef\<close> pointed to before.
\<close>

definition new_connection :: "ice_server list \<Rightarrow> state \<Rightarrow> state" where
  "new_connection servers s =
     s\<lparr> pcs := pcs s @ [RTCPeerConnection servers], pcRef := Some (length (pcs s)) \<rparr>"

definition install_handlers :: "string \<Rightarrow> bool \<Rightarrow> peer_connection \<Rightarrow> peer_connection" where
  "install_handlers from v p = p\<lparr> handlers := Some \<lparr> h_from = from, h_video = v \<rparr> \<rparr>"

text \<open>
  The local capture of the audio \<open>ready\<close> branch: \<open>getUserMedia\<close>, the stream stored in
  \<open>localStreamRef.current\<close> (the stream it pointed to before is not stopped), each track
  added to the connection \<open>i\<close>.
\<close>

definition capture_and_add :: "env \<Rightarrow> nat \<Rightarrow> state \<Rightarrow> state \<times> js_error option" where
  "capture_and_add e i s =
     (let s1 = s\<lparr> getUserMedia_calls := Suc (getUserMedia_calls s) \<rparr>
      in case getUserMedia_result e of
           Inl err \<Rightarrow> (s1, Some err)
         | Inr stream \<Rightarrow>
             (let j = length (local_streams s1)
              in (upd_pc i (\<lambda>p. p\<lparr> senders := senders p @ map (Pair j) [0 ..< length stream] \<rparr>)
                    (s1\<lparr> local_streams := local_streams s1 @ [stream],
                         localStreamRef := Some j \<rparr>),
                  None)))"

text \<open>The \<open>webrtc-signal\<close> handler of part_001 (lines 181-295).\<close>

definition webrtc_signal_try :: "env \<Rightarrow> string \<Rightarrow> signal_data \<Rightarrow> state \<Rightarrow> state \<times> js_error option" where
  "webrtc_signal_try e from data s =
     (if d_type data = Val ''ready'' then
        (let s1 = new_connection iceServers_p1
                    ((setCallStatus ''Dashcam ready - Creating audio offer...'' s)
                       \<lparr> storage := Some from \<rparr>);
             i = length (pcs s)
         in case capture_and_add e i s1 of
              (s2, Some err) \<Rightarrow> (s2, Some err)
            | (s2, None) \<Rightarrow>
                send_offer e i ''webrtc-signal'' from ''Audio offer sent...''
                  (upd_pc i (install_handlers from False) s2))
      else if d_type data = Val ''answer'' then apply_answer e data ''Audio answer received...'' s
      else if truthy_candidate (d_candidate data) then candidate_branch e data s
      else (s, None))"

definition webrtc_signal :: "env \<Rightarrow> string \<Rightarrow> signal_data \<Rightarrow> state \<Rightarrow> state" where
  "webrtc_signal e from data s =
     (if isVideoCall s then s
      else case webrtc_signal_try e from data s of
             (s', None) \<Rightarrow> s'
           | (s', Some err) \<Rightarrow> setCallStatus (''Audio connection error: '' @ err_message err) s')"

text \<open>The \<open>webrtc-video-signal\<close> handler of part_001 (lines 297-396): no local capture.\<close>

definition webrtc_video_signal_try :: "env \<Rightarrow> string \<Rightarrow> signal_data \<Rightarrow> state \<Rightarrow> state \<times> js_error option" where
  "webrtc_video_signal_try e from data s =
     (if d_type data = Val ''ready'' then
        (let s1 = new_connection iceServers_p1
                    ((setCallStatus ''Dashcam ready - Creating video offer...'' s)
                       \<lparr> storage := Some from \<rparr>);
             i = length (pcs s)
         in send_offer e i ''webrtc-video-signal'' from ''Video offer sent...''
              (upd_pc i (install_handlers from True) s1))
      else if d_type data = Val ''answer'' then apply_answer e data ''Video answer received...'' s
      else if truthy_candidate (d_candidate data) then candidate_branch e data s
      else (s, None))"

definition webrtc_video_signal :: "env \<Rightarrow> string \<Rightarrow> signal_data \<Rightarrow> state \<Rightarrow> state" where
  "webrtc_video_signal e from data s =
     (if \<not> isVideoCall s then s
      else case webrtc_video_signal_try e from data s of
             (s', None) \<Rightarrow> s'
           | (s', Some err) \<Rightarrow> setCallStatus (''Video connection error: '' @ err_message err) s')"

text \<open>The two handlers of App.tsx (lines 139-227 and 229-306).\<close>

definition webrtc_signal_try_App :: "env \<Rightarrow> string \<Rightarrow> signal_data \<Rightarrow> state \<Rightarrow> state \<times> js_error option" where
  "webrtc_signal_try_App e from data s =
     (if d_type data = Val ''ready'' then
        (let s1 = new_connection iceServers_App
                    ((setCallStatus ''Dashcam ready - Creating audio offer...'' s)
                       \<lparr> storage := Some from \<rparr>);
             i = length (pcs s)
         in case capture_and_add e i s1 of
              (s2, Some err) \<Rightarrow> (s2, Some err)
            | (s2, None) \<Rightarrow>
                send_offer e i ''webrtc-signal'' from ''Audio offer sent...''
                  (upd_pc i (install_handlers from False) s2))
      else if d_type data = Val ''answer'' then apply_answer e data ''Audio answer received...'' s
      else if truthy_candidate (d_candidate data) then candidate_branch_App e data s
      else (s, None))"

definition webrtc_signal_App :: "env \<Rightarrow> string \<Rightarrow> signal_data \<Rightarrow> state \<Rightarrow> state" where
  "webrtc_signal_App e from data s =
     (if isVideoCall s then s
      else case webrtc_signal_try_App e from data s of
             (s', None) \<Rightarrow> s'
           | (s', Some err) \<Rightarrow> setCallStatus ''Audio connection error'' s')"

definition webrtc_video_signal_try_App :: "env \<Rightarrow> string \<Rightarrow> signal_data \<Rightarrow> state \<Rightarrow> state \<times> js_error option" where
  "webrtc_video_signal_try_App e from data s =
     (if d_type data = Val ''ready'' then
        (let s1 = new_connection iceServers_App
                    ((setCallStatus ''Dashcam ready - Creating video offer...'' s)
                       \<lparr> storage := Some from \<rparr>);
             i = length (pcs s)
         in send_offer e i ''webrtc-video-signal'' from ''Video offer sent...''
              (upd_pc i (install_handlers from True) s1))
      else if d_type data = Val ''answer'' then apply_answer e data ''Video answer received...'' s
      else if truthy_candidate (d_candidate data) then candidate_branch_App e data s
      else (s, None))"

definition webrtc_video_signal_App :: "env \<Rightarrow> string \<Rightarrow> signal_data \<Rightarrow> state \<Rightarrow> state" where
  "webrtc_video_signal_App e from data s =
     (if \<not> isVideoCall s then s
      else case webrtc_video_signal_try_App e from data s of
             (s', None) \<Rightarrow> s'
           | (s', Some err) \<Rightarrow> setCallStatus ''Video connection error'' s')"

subsection \<open>The callbacks of a connection\<close>

text \<open>\<open>pc.onconnectionstatechange\<close> of part_001 (lines 256-267 and 354-365).\<close>

definition onconnectionstatechange :: "pc_handlers \<Rightarrow> string \<Rightarrow> state \<Rightarrow> state" where
  "onconnectionstatechange h st s =
     (let what = (if h_video h then ''Video'' else ''Audio'')
      in if st = ''connected'' then setCallStatus (what @ '' connected'') s
         else if st = ''failed'' then
           emit (if h_video h then ''video-call-ended'' else ''call-ended'') (To (h_from h))
             ((setCallStatus (what @ '' connection failed'') s)\<lparr> isCallActive := False \<rparr>)
         else setCallStatus (what @ '' connecting... ('' @ st @ '')'') s)"

text \<open>
  \<open>pc.onicecandidate\<close> (part_001 lines 225-245 and 323-343, App.tsx lines 174-189 and
  250-265): a local candidate the engine found goes to the peer on the handler's channel;
  the final event without a candidate sends nothing.
\<close>

definition onicecandidate :: "pc_handlers \<Rightarrow> candidate_init option \<Rightarrow> state \<Rightarrow> state" where
  "onicecandidate h c s =
     (case c of
        Some cand \<Rightarrow>
          emit (if h_video h then ''webrtc-video-signal'' else ''webrtc-signal'')
            (IceCandidate (h_from h) cand) s
      | None \<Rightarrow> s)"

text \<open>\<open>pc.oniceconnectionstatechange\<close> of part_001 (lines 247-254 and 345-352).\<close>

definition oniceconnectionstatechange :: "pc_handlers \<Rightarrow> string \<Rightarrow> state \<Rightarrow> state" where
  "oniceconnectionstatechange h st s =
     (if st = ''failed'' \<or> st = ''disconnected'' then
        emit (if h_video h then ''video-call-ended'' else ''call-ended'') (To (h_from h))
          ((setCallStatus ''ICE connection failed'' s)\<lparr> isCallActive := False \<rparr>)
      else s)"

text \<open>\<open>pc.onconnectionstatechange\<close> of App.tsx (lines 191-201 and 267-277).\<close>

definition onconnectionstatechange_App :: "pc_handlers \<Rightarrow> string \<Rightarrow> state \<Rightarrow> state" where
  "onconnectionstatechange_App h st s =
     (let what = (if h_video h then ''Video'' else ''Audio'')
      in if st = ''connected'' then setCallStatus (what @ '' connected'') s
         else if st = ''failed'' then
           (setCallStatus (what @ '' connection failed'') s)\<lparr> isCallActive := False \<rparr>
         else setCallStatus (what @ '' connecting... ('' @ st @ '')'') s)"

text \<open>
  The transport engine reporting on the connection at address \<open>i\<close>: it sets the
  connection's state and runs the callback, if the \<open>ready\<close> branch got as far as
  installing it. A closed connection reports nothing.
\<close>

definition connectionstatechange :: "nat \<Rightarrow> string \<Rightarrow> state \<Rightarrow> state" where
  "connectionstatechange i st s =
     (if i < length (pcs s) \<and> \<not> closed (pcs s ! i) then
        (case handlers (pcs s ! i) of
           Some h \<Rightarrow> onconnectionstatechange h st (upd_pc i (\<lambda>p. p\<lparr> connectionState := st \<rparr>) s)
         | None \<Rightarrow> upd_pc i (\<lambda>p. p\<lparr> connectionState := st \<rparr>) s)
      else s)"

definition iceconnectionstatechange :: "nat \<Rightarrow> string \<Rightarrow> state \<Rightarrow> state" where
  "iceconnectionstatechange i st s =
     (if i < length (pcs s) \<and> \<not> closed (pcs s ! i) then
        (case handlers (pcs s ! i) of
           Some h \<Rightarrow>
             oniceconnectionstatechange h st (upd_pc i (\<lambda>p. p\<lparr> iceConnectionState := st \<rparr>) s)
         | None \<Rightarrow> upd_pc i (\<lambda>p. p\<lparr> iceConnectionState := st \<rparr>) s)
      else s)"

definition connectionstatechange_App :: "nat \<Rightarrow> string \<Rightarrow> state \<Rightarrow> state" where
  "connectionstatechange_App i st s =
     (if i < length (pcs s) \<and> \<not> closed (pcs s ! i) then
        (case handlers (pcs s ! i) of
           Some h \<Rightarrow>
             onconnectionstatechange_App h st (upd_pc i (\<lambda>p. p\<lparr> connectionState := st \<rparr>) s)
         | None \<Rightarrow> upd_pc i (\<lambda>p. p\<lparr> connectionState := st \<rparr>) s)
      else s)"

text \<open>\<open>pc.ontrack\<close>: a track arriving on the connection at address \<open>i\<close>.\<close>

definition ontrack :: "nat \<Rightarrow> track_event \<Rightarrow> state \<Rightarrow> state" where
  "ontrack i ev s =
     (if i < length (pcs s) \<and> \<not> closed (pcs s ! i) then
        (case handlers (pcs s ! i) of
           Some h \<Rightarrow> handleTrackReceived (h_video h) ev s
         | None \<Rightarrow> s)
      else s)"

definition ontrack_App :: "nat \<Rightarrow> track_event \<Rightarrow> state \<Rightarrow> state" where
  "ontrack_App i ev s =
     (if i < length (pcs s) \<and> \<not> closed (pcs s ! i) then
        (case handlers (pcs s ! i) of
           Some h \<Rightarrow> handleTrackReceived_App ev s
         | None \<Rightarrow> s)
      else s)"

text \<open>
  The relay's \<open>call-ended\<close>, \<open>video-call-ended\<close> and \<open>error\<close> events (part_001 lines
  398-415, App.tsx lines 308-325).
\<close>

definition call_ended :: "state \<Rightarrow> state" where
  "call_ended s = (if isVideoCall s then s else endCall s)"

definition video_call_ended :: "state \<Rightarrow> state" where
  "video_call_ended s = (if \<not> isVideoCall s then s else endCall s)"

definition socket_error :: "string \<Rightarrow> state \<Rightarrow> state" where
  "socket_error msg s =
     (setCallStatus (''Error: '' @ msg) s)\<lparr> isCallActive := False, isVideoCall := False \<rparr>"

subsection \<open>Rendering\<close>

text \<open>
  React sets a ref to the element it mounted and to \<open>null\<close> when the element is not
  rendered. Both variants render the video element under \<open>isCallActive && isVideoCall\<close>
  (part_001 lines 542-567, App.tsx lines 448-473). part_001 renders the audio element
  under \<open>isCallActive\<close> (lines 569-584); App.tsx renders it always (lines 475-488). The
  state the next event finds is a rendered one.
\<close>

definition audio_element :: media_element where
  "audio_element = \<lparr> srcObject = None, muted = False, listeners = False, play_calls = 0 \<rparr>"

definition video_element :: media_element where
  "video_element = \<lparr> srcObject = None, muted = True, listeners = False, play_calls = 0 \<rparr>"

definition mount :: "media_element \<Rightarrow> media_element option \<Rightarrow> media_element option" where
  "mount fresh r = Some (case r of Some el \<Rightarrow> el | None \<Rightarrow> fresh)"

definition render :: "state \<Rightarrow> state" where
  "render s =
     s\<lparr> audioRef := (if isCallActive s then mount audio_element (audioRef s) else None),
        videoRef :=
          (if isCallActive s \<and> isVideoCall s then mount video_element (videoRef s) else None) \<rparr>"

definition render_App :: "state \<Rightarrow> state" where
  "render_App s =
     s\<lparr> audioRef := mount audio_element (audioRef s),
        videoRef :=
          (if isCallActive s \<and> isVideoCall s then mount video_element (videoRef s) else None) \<rparr>"

text \<open>
  The component's effect (part_001 lines 170-427, App.tsx lines 129-337) depends on
  \<open>isVideoCall\<close>: when a render changes \<open>isVideoCall\<close>, React runs the cleanup of the
  effect before registering the socket handlers again. The cleanup unregisters the
  handlers and closes the connection \<open>pcRef\<close> points to; it does not clear \<open>pcRef\<close>.
  \<open>rerender old new\<close> is the state after React has rendered the state \<open>new\<close> that an
  event handler made of \<open>old\<close> (\<open>rerender_App\<close> in App.tsx).
\<close>

definition effect_cleanup :: "state \<Rightarrow> state" where
  "effect_cleanup s = (case pcRef s of Some i \<Rightarrow> upd_pc i close_pc s | None \<Rightarrow> s)"

definition rerender :: "state \<Rightarrow> state \<Rightarrow> state" where
  "rerender old new =
     render (if isVideoCall new \<noteq> isVideoCall old then effect_cleanup new else new)"

definition rerender_App :: "state \<Rightarrow> state \<Rightarrow> state" where
  "rerender_App old new =
     render_App (if isVideoCall new \<noteq> isVideoCall old then effect_cleanup new else new)"

subsection \<open>Predicates of the properties\<close>

text \<open>
  The idle baseline: the status is the ready message, the session is cleared (level 0,
  no connection, no local capture referred to, no active call, no source on a mounted
  sink), and no track of any local capture is live.
\<close>

definition detached :: "media_element option \<Rightarrow> bool" where
  "detached r = (case r of None \<Rightarrow> True | Some el \<Rightarrow> srcObject el = None)"





text \<open>
  No connection the state points to has a remote description yet (there may be no
  connection at all).
\<close>

definition no_remote_description :: "state \<Rightarrow> bool" where
  "no_remote_description s =
     (case pcRef s of None \<Rightarrow> True | Some i \<Rightarrow> remoteDescription (pcs s ! i) = None)"

text \<open>
  \<open>fresh_connection servers s s'\<close>: the store of \<open>s'\<close> is the store of \<open>s\<close> with one
  object more, which is an open connection in state \<open>new\<close> with the given servers and no
  remote description, and \<open>pcRef\<close> of \<open>s'\<close> points to it.
\<close>

definition fresh_connection :: "ice_server list \<Rightarrow> state \<Rightarrow> state \<Rightarrow> bool" where
  "fresh_connection servers s s' \<longleftrightarrow>
     length (pcs s') = Suc (length (pcs s)) \<and> take (length (pcs s)) (pcs s') = pcs s
     \<and> pcRef s' = Some (length (pcs s))
     \<and> \<not> closed (pcs s' ! length (pcs s))
     \<and> iceServers (pcs s' ! length (pcs s)) = servers
     \<and> connectionState (pcs s' ! length (pcs s)) = ''new''
     \<and> remoteDescription (pcs s' ! length (pcs s)) = None"

text \<open>
  \<open>fits p caps m\<close>: the text \<open>m\<close> is an instance of the pattern \<open>p\<close> whose repetitions
  matched the strings \<open>caps\<close>. The matcher is compared with it.
\<close>

fun fits :: "ritem list \<Rightarrow> string list \<Rightarrow> string \<Rightarrow> bool" where
  "fits [] caps m = (caps = [] \<and> m = [])"
| "fits (Lit l # its) caps m = (\<exists>m'. m = l @ m' \<and> fits its caps m')"
| "fits (Rep c lo # its) caps m =
     (\<exists>g caps' m'. caps = g # caps' \<and> m = g @ m' \<and> lo \<le> length g
        \<and> list_all (in_class c) g \<and> fits its caps' m')"

subsection \<open>Scenarios\<close>

text \<open>
  Concrete states and inputs on which the theorems are exercised: the component of each
  variant after mounting; in part_001, an audio call that awaits the device, one whose
  offer is sent, and one that is connected to the relay peer \<open>p1\<close> and plays the remote
  stream 7, and a video call that awaits the device; in App.tsx, a connected audio call.
\<close>

definition mic :: track where
  "mic = \<lparr> kind = ''audio'', stopped = False \<rparr>"

definition idle :: state where
  "idle = \<lparr> pcs = [], pcRef = None, audioRef = None, videoRef = None,
            local_streams = [], localStreamRef = None, callStatus = ''Ready to call'',
            audioLevel = 0, isCallActive = False, isVideoCall = False, videoStats = [],
            storage = None, emitted = [], timers = [], getUserMedia_calls = 0 \<rparr>"

definition idle_App :: state where
  "idle_App = idle\<lparr> audioRef := Some audio_element \<rparr>"

definition env_ok :: env where
  "env_ok = \<lparr> getUserMedia_result = Inr [mic], createOffer_result = Inr ''v=0 offer'',
              setLocalDescription_result = Inr (), setRemoteDescription_result = Inr (),
              addIceCandidate_result = Inr () \<rparr>"

definition permission_denied :: js_error where
  "permission_denied = \<lparr> err_name = ''NotAllowedError'', err_message = ''Permission denied'' \<rparr>"

definition env_denied :: env where
  "env_denied = env_ok\<lparr> getUserMedia_result := Inl permission_denied \<rparr>"

definition ready_msg :: signal_data where
  "ready_msg = \<lparr> d_type = Val ''ready'', d_sdp = Undefined, d_candidate = Undefined \<rparr>"

definition answer_msg :: signal_data where
  "answer_msg = \<lparr> d_type = Val ''answer'', d_sdp = Val ''v=0 answer'', d_candidate = Undefined \<rparr>"

definition candidate_msg :: "wire_candidate \<Rightarrow> signal_data" where
  "candidate_msg c = \<lparr> d_type = Undefined, d_sdp = Undefined, d_candidate = Val c \<rparr>"

definition audio_track_event :: track_event where
  "audio_track_event = \<lparr> ev_kind = ''audio'', ev_track = 0, ev_streams = [7] \<rparr>"

definition video_track_event :: track_event where
  "video_track_event = \<lparr> ev_kind = ''video'', ev_track = 1, ev_streams = [7] \<rparr>"

definition awaiting_ready :: state where
  "awaiting_ready =
     idle\<lparr> audioRef := Some audio_element, local_streams := [[mic]], localStreamRef := Some 0,
           callStatus := ''Initiating audio call via socket...'', isCallActive := True,
           emitted := [(''start-call'', DeviceId ''dashcam-001'')], getUserMedia_calls := 1 \<rparr>"

definition video_awaiting_ready :: state where
  "video_awaiting_ready =
     idle\<lparr> audioRef := Some audio_element, videoRef := Some video_element,
           callStatus := ''Initiating video call via socket...'', isCallActive := True,
           isVideoCall := True,
           emitted := [(''start-video-call'', DeviceId ''dashcam-001'')] \<rparr>"

definition offered_pc :: peer_connection where
  "offered_pc =
     (RTCPeerConnection iceServers_p1)
       \<lparr> localDescription := Some \<lparr> sd_type = ''offer'', sd_sdp = ''v=0 offer'' \<rparr>,
         senders := [(1, 0)], handlers := Some \<lparr> h_from = ''p1'', h_video = False \<rparr> \<rparr>"

definition offer_sent :: state where
  "offer_sent =
     awaiting_ready
       \<lparr> pcs := [offered_pc], pcRef := Some 0, local_streams := [[mic], [mic]],
         localStreamRef := Some 1, callStatus := ''Audio offer sent...'', storage := Some ''p1'',
         emitted := [(''start-call'', DeviceId ''dashcam-001''),
                     (''webrtc-signal'',
                      Description ''p1'' \<lparr> sd_type = ''offer'', sd_sdp = ''v=0 offer'' \<rparr>)],
         getUserMedia_calls := 2 \<rparr>"

definition audio_session :: state where
  "audio_session =
     offer_sent
       \<lparr> pcs := [offered_pc\<lparr> connectionState := ''connected'',
                     remoteDescription := Some \<lparr> sd_type = ''answer'', sd_sdp = ''v=0 answer'' \<rparr> \<rparr>],
         audioRef := Some (audio_element\<lparr> srcObject := Some (RemoteStream 7), play_calls := 1 \<rparr>),
         callStatus := ''Audio connected'' \<rparr>"

definition audio_session_App :: state where
  "audio_session_App =
     idle_App
       \<lparr> pcs := [(RTCPeerConnection iceServers_App)
                  \<lparr> connectionState := ''connected'',
                    localDescription := Some \<lparr> sd_type = ''offer'', sd_sdp = ''v=0 offer'' \<rparr>,
                    remoteDescription := Some \<lparr> sd_type = ''answer'', sd_sdp = ''v=0 answer'' \<rparr>,
                    senders := [(0, 0)],
                    handlers := Some \<lparr> h_from = ''p1'', h_video = False \<rparr> \<rparr>],
         pcRef := Some 0,
         audioRef := Some (audio_element\<lparr> srcObject := Some (TrackStream 0), play_calls := 1 \<rparr>),
         local_streams := [[mic]], localStreamRef := Some 0, callStatus := ''Audio connected'',
         isCallActive := True, storage := Some ''p1'',
         emitted := [(''start-call'', DeviceId ''dashcam-002''),
                     (''webrtc-signal'',
                      Description ''p1'' \<lparr> sd_type = ''offer'', sd_sdp = ''v=0 offer'' \<rparr>)],
         getUserMedia_calls := 1 \<rparr>"

text \<open>
  The connection of a call drops and comes back between two animation frames.
\<close>

definition blip :: "state \<Rightarrow> state" where
  "blip s = connectionstatechange 0 ''connected'' (connectionstatechange 0 ''disconnected'' s)"

definition empty_candidate :: candidate_init where
  "empty_candidate =
     \<lparr> candidate = Val [], sdpMid = Val ''0'', sdpMLineIndex = Val (Exact 0),
       usernameFragment = Undefined \<rparr>"

definition prefixed_candidate :: string where
  "prefixed_candidate = ''a=candidate:1 1 udp 9 10.0.0.1 5000 typ host''"

section \<open>Properties\<close>

subsection \<open>The matcher against the grammar\<close>

lemma first_some_SomeD:
  "first_some f xs = Some y \<Longrightarrow> \<exists>x \<in> set xs. f x = Some y"
  by (induction xs) (auto split: option.splits)

lemma first_some_not_None:
  "x \<in> set xs \<Longrightarrow> f x \<noteq> None \<Longrightarrow> first_some f xs \<noteq> None"
  by (induction xs) (auto split: option.splits)

lemma take_run_in_class:
  "n \<le> length (takeWhile P s) \<Longrightarrow> list_all P (take n s)"
proof (induction s arbitrary: n)
  case Nil
  then show ?case by simp
next
  case (Cons a s)
  then show ?case by (cases n) (auto split: if_splits)
qed

lemma run_length_ge:
  "list_all P g \<Longrightarrow> length g \<le> length (takeWhile P (g @ t))"
  by (induction g) auto

lemma match_here_sound:
  "match_here its s = Some caps \<Longrightarrow> \<exists>m r. s = m @ r \<and> fits its caps m"
proof (induction its arbitrary: s caps)
  case Nil
  then show ?case by simp
next
  case (Cons it its)
  show ?case
  proof (cases it)
    case (Lit l)
    with Cons.prems have tk: "take (length l) s = l"
      and rec: "match_here its (drop (length l) s) = Some caps"
      by (auto split: if_splits)
    from Cons.IH [OF rec] obtain m r where mr: "drop (length l) s = m @ r" "fits its caps m"
      by blast
    have "s = (l @ m) @ r" using tk mr(1) by (metis append_assoc append_take_drop_id)
    moreover have "fits (it # its) caps (l @ m)" using Lit mr(2) by simp
    ultimately show ?thesis by blast
  next
    case (Rep c lo)
    with Cons.prems have
      "first_some (\<lambda>n. map_option ((#) (take n s)) (match_here its (drop n s)))
         (rev [lo ..< Suc (length (takeWhile (in_class c) s))]) = Some caps"
      by simp
    from first_some_SomeD [OF this]
    obtain n where n: "n \<in> set (rev [lo ..< Suc (length (takeWhile (in_class c) s))])"
      and ev: "map_option ((#) (take n s)) (match_here its (drop n s)) = Some caps"
      by blast
    from ev obtain caps' where rec: "match_here its (drop n s) = Some caps'"
      and caps: "caps = take n s # caps'" by auto
    from Cons.IH [OF rec] obtain m r where mr: "drop n s = m @ r" "fits its caps' m" by blast
    from n have lo: "lo \<le> n" and hi: "n \<le> length (takeWhile (in_class c) s)" by auto
    have "length (takeWhile (in_class c) s) \<le> length s" by (rule length_takeWhile_le)
    with hi have len: "length (take n s) = n" by simp
    have "s = (take n s @ m) @ r" using mr(1) by (metis append_assoc append_take_drop_id)
    moreover have "fits (it # its) caps (take n s @ m)"
      using Rep caps mr(2) lo len take_run_in_class [OF hi] by simp
    ultimately show ?thesis by blast
  qed
qed

lemma match_here_complete:
  "fits its caps m \<Longrightarrow> match_here its (m @ r) \<noteq> None"
proof (induction its arbitrary: caps m)
  case Nil
  then show ?case by simp
next
  case (Cons it its)
  show ?case
  proof (cases it)
    case (Lit l)
    with Cons.prems obtain m' where m: "m = l @ m'" and f: "fits its caps m'" by auto
    from Cons.IH [OF f] show ?thesis using Lit m by simp
  next
    case (Rep c lo)
    with Cons.prems obtain g caps' m' where m: "m = g @ m'" and lo: "lo \<le> length g"
      and cl: "list_all (in_class c) g" and f: "fits its caps' m'" by auto
    let ?k = "length (takeWhile (in_class c) (m @ r))"
    let ?f = "\<lambda>n. map_option ((#) (take n (m @ r))) (match_here its (drop n (m @ r)))"
    have "length g \<le> ?k" using run_length_ge [OF cl, of "m' @ r"] m by simp
    with lo have mem: "length g \<in> set (rev [lo ..< Suc ?k])" by auto
    have "?f (length g) \<noteq> None" using Cons.IH [OF f] m by simp
    then have "first_some ?f (rev [lo ..< Suc ?k]) \<noteq> None"
      using mem by (rule first_some_not_None [rotated])
    then show ?thesis using Rep by simp
  qed
qed

lemma js_match_iff:
  "js_match p s \<noteq> None \<longleftrightarrow> (\<exists>pre caps m r. s = pre @ m @ r \<and> fits p caps m)"
proof
  assume "js_match p s \<noteq> None"
  then obtain caps where "js_match p s = Some caps" by blast
  then obtain i where "match_here p (drop i s) = Some caps"
    unfolding js_match_def by (auto dest!: first_some_SomeD)
  from match_here_sound [OF this] obtain m r where "drop i s = m @ r" "fits p caps m" by blast
  then have "s = take i s @ m @ r \<and> fits p caps m" by (metis append_take_drop_id)
  then show "\<exists>pre caps m r. s = pre @ m @ r \<and> fits p caps m" by blast
next
  assume "\<exists>pre caps m r. s = pre @ m @ r \<and> fits p caps m"
  then obtain pre caps m r where s: "s = pre @ m @ r" and f: "fits p caps m" by blast
  have mem: "length pre \<in> set [0 ..< Suc (length s)]" using s by simp
  have "match_here p (drop (length pre) s) \<noteq> None"
    using match_here_complete [OF f, of r] s by simp
  then show "js_match p s \<noteq> None"
    unfolding js_match_def using mem by (rule first_some_not_None [rotated])
qed

lemma js_match_candidate_groups:
  assumes "js_match candidate_re s = Some caps"
  shows "\<exists>a b c d e f g h. caps = [a, b, c, d, e, f, g, h]"
proof -
  from assms obtain i where "match_here candidate_re (drop i s) = Some caps"
    unfolding js_match_def by (auto dest!: first_some_SomeD)
  from match_here_sound [OF this] obtain m and r :: string where "fits candidate_re caps m"
    by blast
  then show ?thesis unfolding candidate_re_def by auto
qed

lemma parseIceCandidate_None_iff:
  "parseIceCandidate (CandString s) = None \<longleftrightarrow> js_match candidate_re s = None"
proof (cases "js_match candidate_re s")
  case None
  then show ?thesis by (simp add: parseIceCandidate_def)
next
  case (Some caps)
  from js_match_candidate_groups [OF Some] obtain a b c d e f g h
    where "caps = [a, b, c, d, e, f, g, h]" by blast
  with Some show ?thesis by (simp add: parseIceCandidate_def)
qed

lemma contains_legacy_iff:
  "contains_legacy s \<longleftrightarrow> (\<exists>pre caps m r. s = pre @ m @ r \<and> fits candidate_re caps m)"
proof
  assume "contains_legacy s"
  then obtain pre fo co pr pri ip po ty rest where
    s: "s = pre @ ''candidate:'' @ fo @ '' '' @ co @ '' '' @ pr @ '' '' @ pri @ '' '' @ ip
          @ '' '' @ po @ '' typ '' @ ty @ rest"
    and c: "fo \<noteq> []" "list_all (\<lambda>c. \<not> is_space c) fo" "co \<noteq> []" "list_all is_digit co"
       "pr \<noteq> []" "list_all is_word pr" "pri \<noteq> []" "list_all is_digit pri"
       "ip \<noteq> []" "list_all (\<lambda>c. \<not> is_space c) ip" "po \<noteq> []" "list_all is_digit po"
       "ty \<noteq> []" "list_all is_word ty"
    unfolding contains_legacy_def legacy_grammar_def by blast
  let ?m = "''candidate:'' @ fo @ '' '' @ co @ '' '' @ pr @ '' '' @ pri @ '' '' @ ip
          @ '' '' @ po @ '' typ '' @ ty"
  have "fits candidate_re [fo, co, pr, pri, ip, po, ty, []] ?m"
    unfolding candidate_re_def using c
    by (simp add: Suc_le_eq list_all_iff)
  moreover have "s = pre @ ?m @ rest" using s by simp
  ultimately show "\<exists>pre caps m r. s = pre @ m @ r \<and> fits candidate_re caps m" by blast
next
  assume "\<exists>pre caps m r. s = pre @ m @ r \<and> fits candidate_re caps m"
  then obtain pre caps m r where s: "s = pre @ m @ r" and f: "fits candidate_re caps m" by blast
  from f obtain fo co pr pri ip po ty rest where
    m: "m = ''candidate:'' @ fo @ '' '' @ co @ '' '' @ pr @ '' '' @ pri @ '' '' @ ip
          @ '' '' @ po @ '' typ '' @ ty @ rest"
    and c: "fo \<noteq> []" "list_all (\<lambda>c. \<not> is_space c) fo" "co \<noteq> []" "list_all is_digit co"
       "pr \<noteq> []" "list_all is_word pr" "pri \<noteq> []" "list_all is_digit pri"
       "ip \<noteq> []" "list_all (\<lambda>c. \<not> is_space c) ip" "po \<noteq> []" "list_all is_digit po"
       "ty \<noteq> []" "list_all is_word ty"
    unfolding candidate_re_def by (auto simp: Suc_le_eq list_all_iff)
  have "m @ r = ''candidate:'' @ fo @ '' '' @ co @ '' '' @ pr @ '' '' @ pri @ '' '' @ ip
          @ '' '' @ po @ '' typ '' @ ty @ (rest @ r)" using m by simp
  with c have "legacy_grammar (m @ r)" unfolding legacy_grammar_def by blast
  with s show "contains_legacy s" unfolding contains_legacy_def by blast
qed

text \<open>
  The decoder rejects a string exactly when the grammar occurs at no position of it.
\<close>

lemma parseIceCandidate_None_legacy:
  "parseIceCandidate (CandString s) = None \<longleftrightarrow> \<not> contains_legacy s"
proof -
  have "js_match candidate_re s \<noteq> None \<longleftrightarrow> contains_legacy s"
    unfolding contains_legacy_iff by (rule js_match_iff)
  then show ?thesis unfolding parseIceCandidate_None_iff by blast
qed

text \<open>A string in the grammar starts with \<open>candidate:\<close>.\<close>

lemma legacy_grammar_starts:
  "legacy_grammar s \<Longrightarrow> take 10 s = ''candidate:''"
  unfolding legacy_grammar_def by auto

subsection \<open>Simplification sets\<close>

lemmas handler_defs =
  webrtc_signal_def webrtc_signal_try_def webrtc_video_signal_def webrtc_video_signal_try_def
  webrtc_signal_App_def webrtc_signal_try_App_def webrtc_video_signal_App_def
  webrtc_video_signal_try_App_def

lemmas step_defs =
  new_connection_def capture_and_add_def send_offer_def apply_answer_def upd_pc_def emit_def
  setCallStatus_def install_handlers_def RTCPeerConnection_def addIceCandidate_def
  RTCIceCandidate_def Let_def

lemmas render_defs =
  render_def render_App_def rerender_def rerender_App_def effect_cleanup_def mount_def

lemmas scenario_defs =
  audio_session_def audio_session_App_def offer_sent_def awaiting_ready_def
  video_awaiting_ready_def idle_def idle_App_def offered_pc_def audio_element_def
  video_element_def mic_def env_ok_def env_denied_def permission_denied_def ready_msg_def
  answer_msg_def candidate_msg_def audio_track_event_def video_track_event_def
  empty_candidate_def prefixed_candidate_def iceServers_p1_def iceServers_App_def stun_def

text \<open>
  The scenario states are states the program reaches from the mounted component, each
  event followed by the render.
\<close>

lemma awaiting_ready_reached:
  "rerender idle (startAudioCall (Inr [mic]) idle) = awaiting_ready"
  by (simp add: startAudioCall_def step_defs render_defs scenario_defs)

lemma video_awaiting_ready_reached:
  "rerender idle (startVideoCall idle) = video_awaiting_ready"
  by (simp add: startVideoCall_def step_defs render_defs scenario_defs)

lemma offer_sent_reached:
  "rerender awaiting_ready (webrtc_signal env_ok ''p1'' ready_msg awaiting_ready) = offer_sent"
  by (simp add: handler_defs step_defs render_defs scenario_defs)

lemma audio_session_reached:
  "rerender offer_sent
     (ontrack 0 audio_track_event
        (connectionstatechange 0 ''connected''
           (webrtc_signal env_ok ''p1'' answer_msg offer_sent))) = audio_session"
  by (simp add: handler_defs step_defs render_defs scenario_defs ontrack_def
      connectionstatechange_def onconnectionstatechange_def handleTrackReceived_def
      remoteStream_def)

lemma audio_session_App_reached:
  "rerender_App idle_App
     (ontrack_App 0 audio_track_event
        (connectionstatechange_App 0 ''connected''
           (webrtc_signal_App env_ok ''p1'' answer_msg
              (webrtc_signal_App env_ok ''p1'' ready_msg (startAudioCall_App idle_App)))))
   = audio_session_App"
  by (simp add: handler_defs step_defs render_defs scenario_defs startAudioCall_App_def
      ontrack_App_def connectionstatechange_App_def onconnectionstatechange_App_def
      handleTrackReceived_App_def)

subsection \<open>The call controller\<close>

text \<open>
  C1, as the code has it. While \<open>isCallActive\<close> holds the two start buttons are disabled,
  so a click on them changes nothing: no relay message, no new session, every field as
  it was. The functions themselves carry no guard: run in an active state they set the
  status line, send \<open>start-call\<close> or \<open>start-video-call\<close> once more and set the mode
  (\<open>startAudioCall\<close> of part_001 also captures the microphone again), and change nothing
  else, so \<open>pcRef\<close> and the stored peer identifier stay; when they flip the mode, the
  render that follows closes the connection \<open>pcRef\<close> points to.
\<close>

theorem C1_start_while_active:
  assumes "isCallActive s"
  shows "click_startAudioCall gum s = s \<and> click_startVideoCall s = s
       \<and> click_startAudioCall_App s = s \<and> click_startVideoCall_App s = s
       \<and> startVideoCall s =
           s\<lparr> callStatus := ''Initiating video call via socket...'', isVideoCall := True,
              emitted := emitted s @ [(''start-video-call'', DeviceId ''dashcam-001'')] \<rparr>
       \<and> startVideoCall_App s =
           s\<lparr> callStatus := ''Initiating video call via socket...'', isVideoCall := True,
              emitted := emitted s @ [(''start-video-call'', DeviceId ''dashcam-002'')] \<rparr>
       \<and> startAudioCall_App s =
           s\<lparr> callStatus := ''Initiating audio call via socket...'', isVideoCall := False,
              emitted := emitted s @ [(''start-call'', DeviceId ''dashcam-002'')] \<rparr>
       \<and> startAudioCall (Inr stream) s =
           s\<lparr> callStatus := ''Initiating audio call via socket...'', isVideoCall := False,
              emitted := emitted s @ [(''start-call'', DeviceId ''dashcam-001'')],
              local_streams := local_streams s @ [stream],
              localStreamRef := Some (length (local_streams s)),
              getUserMedia_calls := Suc (getUserMedia_calls s) \<rparr>
       \<and> (\<not> isVideoCall s \<longrightarrow> pcRef s = Some i \<longrightarrow> i < length (pcs s) \<longrightarrow>
            closed (pcs (rerender s (startVideoCall s)) ! i)
            \<and> closed (pcs (rerender_App s (startVideoCall_App s)) ! i)
            \<and> pcRef (rerender s (startVideoCall s)) = Some i)
       \<and> (isVideoCall s \<longrightarrow> pcRef s = Some i \<longrightarrow> i < length (pcs s) \<longrightarrow>
            closed (pcs (rerender s (startAudioCall (Inr stream) s)) ! i)
            \<and> closed (pcs (rerender_App s (startAudioCall_App s)) ! i)
            \<and> pcRef (rerender_App s (startAudioCall_App s)) = Some i)"
  using assms
  by (simp add: click_startAudioCall_def click_startVideoCall_def click_startAudioCall_App_def
        click_startVideoCall_App_def startAudioCall_def startVideoCall_def startAudioCall_App_def
        startVideoCall_App_def emit_def setCallStatus_def render_defs upd_pc_def close_pc_def
        Let_def)

theorem C1_witness:
  "isCallActive audio_session \<and> \<not> isVideoCall audio_session \<and> pcRef audio_session = Some 0
   \<and> 0 < length (pcs audio_session)
   \<and> click_startAudioCall (Inr [mic]) audio_session = audio_session
   \<and> click_startVideoCall audio_session = audio_session
   \<and> closed (pcs (rerender audio_session (startVideoCall audio_session)) ! 0)"
proof -
  have a: "isCallActive audio_session" and b: "\<not> isVideoCall audio_session"
    "pcRef audio_session = Some 0" "0 < length (pcs audio_session)"
    by (simp_all add: scenario_defs)
  from C1_start_while_active [OF a, where gum = "Inr [mic]" and stream = "[mic]" and i = 0] a b
  show ?thesis by blast
qed

text \<open>
  The claim as stated fails: in the connected audio call, which is active,
  \<open>startVideoCall()\<close> sends a relay message and flips the mode, after which the render
  closes the call's connection, and \<open>startAudioCall()\<close> sends a relay message and
  replaces the local capture.
\<close>

theorem C1_counterexample:
  "isCallActive audio_session
   \<and> emitted (startVideoCall audio_session)
       = emitted audio_session @ [(''start-video-call'', DeviceId ''dashcam-001'')]
   \<and> \<not> isVideoCall audio_session \<and> isVideoCall (startVideoCall audio_session)
   \<and> map closed (pcs audio_session) = [False]
   \<and> map closed (pcs (rerender audio_session (startVideoCall audio_session))) = [True]
   \<and> emitted (startAudioCall (Inr [mic]) audio_session)
       = emitted audio_session @ [(''start-call'', DeviceId ''dashcam-001'')]
   \<and> localStreamRef audio_session = Some 1
   \<and> localStreamRef (startAudioCall (Inr [mic]) audio_session) = Some 2
   \<and> emitted (startVideoCall_App audio_session)
       = emitted audio_session @ [(''start-video-call'', DeviceId ''dashcam-002'')]"
  by (simp add: startVideoCall_def startAudioCall_def startVideoCall_App_def emit_def
      setCallStatus_def render_defs upd_pc_def close_pc_def scenario_defs
      RTCPeerConnection_def Let_def)

text \<open>
  C2 at a concrete input: the connected audio call of part_001, to which the transport
  engine reports \<open>failed\<close>. The status becomes the failure message, the session is marked
  inactive and \<open>call-ended\<close> goes to the peer; but the connection stays open and stays in
  \<open>pcRef\<close>, no local track is stopped, the callback detaches no sink, and the End Call
  button, now disabled, does nothing. The render that follows unmounts the audio element
  (part_001 renders it only while a call is active) and changes nothing else: the mode
  is unchanged, so no cleanup runs, and the connection and the capture stay as they are.
  A second report sends a second \<open>call-ended\<close>. The relay's own \<open>call-ended\<close> event, on the
  same state, runs \<open>endCall\<close> and releases all of it. In App.tsx the report sends nothing
  to the relay at all.
\<close>

theorem C2_failed_runs_no_cleanup:
  "callStatus (connectionstatechange 0 ''failed'' audio_session) = ''Audio connection failed''
   \<and> \<not> isCallActive (connectionstatechange 0 ''failed'' audio_session)
   \<and> emitted (connectionstatechange 0 ''failed'' audio_session)
       = emitted audio_session @ [(''call-ended'', To ''p1'')]
   \<and> pcRef (connectionstatechange 0 ''failed'' audio_session) = Some 0
   \<and> map closed (pcs (connectionstatechange 0 ''failed'' audio_session)) = [False]
   \<and> localStreamRef (connectionstatechange 0 ''failed'' audio_session) = Some 1
   \<and> local_streams (connectionstatechange 0 ''failed'' audio_session) = [[mic], [mic]]
   \<and> \<not> stopped mic
   \<and> audioRef (connectionstatechange 0 ''failed'' audio_session) = audioRef audio_session
   \<and> \<not> detached (audioRef audio_session)
   \<and> click_endCall (connectionstatechange 0 ''failed'' audio_session)
       = connectionstatechange 0 ''failed'' audio_session
   \<and> rerender audio_session (connectionstatechange 0 ''failed'' audio_session)
       = (connectionstatechange 0 ''failed'' audio_session)\<lparr> audioRef := None \<rparr>
   \<and> click_endCall (rerender audio_session (connectionstatechange 0 ''failed'' audio_session))
       = rerender audio_session (connectionstatechange 0 ''failed'' audio_session)
   \<and> emitted (connectionstatechange 0 ''failed'' (connectionstatechange 0 ''failed'' audio_session))
       = emitted audio_session @ [(''call-ended'', To ''p1''), (''call-ended'', To ''p1'')]
   \<and> pcRef (call_ended audio_session) = None
   \<and> map closed (pcs (call_ended audio_session)) = [True]
   \<and> local_streams (call_ended audio_session) = [[mic], [stop_track mic]]
   \<and> detached (audioRef (call_ended audio_session))
   \<and> emitted (connectionstatechange_App 0 ''failed'' audio_session_App)
       = emitted audio_session_App
   \<and> map closed (pcs (connectionstatechange_App 0 ''failed'' audio_session_App)) = [False]
   \<and> local_streams (connectionstatechange_App 0 ''failed'' audio_session_App) = [[mic]]
   \<and> \<not> isCallActive (connectionstatechange_App 0 ''failed'' audio_session_App)"
  by (simp add: connectionstatechange_def onconnectionstatechange_def connectionstatechange_App_def
      onconnectionstatechange_App_def click_endCall_def call_ended_def endCall_def close_pc_def
      detached_def render_defs step_defs scenario_defs)




subsection \<open>Candidates\<close>

lemma candidate_branch_no_remote:
  "no_remote_description s \<Longrightarrow> candidate_branch e data s = (s, None)"
  by (auto simp: candidate_branch_def no_remote_description_def
      split: jsval.splits option.splits)

lemma candidate_branch_App_no_remote:
  "no_remote_description s \<Longrightarrow> candidate_branch_App e data s = (s, None)"
  by (auto simp: candidate_branch_App_def no_remote_description_def
      split: jsval.splits option.splits wire_candidate.splits)

text \<open>
  C4. A message that is neither \<open>ready\<close> nor \<open>answer\<close> (so every candidate message, well
  formed or not) that arrives while the connection has no remote description, or while
  there is no connection, leaves the whole state as it was, in all four handlers: the
  candidate is not handed to the engine (\<open>addIceCandidate_calls\<close> is part of the state),
  it is stored nowhere, and no error status is set.
\<close>

theorem C4_candidate_before_remote_description_dropped:
  assumes "d_type data \<noteq> Val ''ready''" and "d_type data \<noteq> Val ''answer''"
    and "no_remote_description s"
  shows "webrtc_signal e from data s = s \<and> webrtc_video_signal e from data s = s
       \<and> webrtc_signal_App e from data s = s \<and> webrtc_video_signal_App e from data s = s"
  using assms
  by (simp add: handler_defs candidate_branch_no_remote candidate_branch_App_no_remote)

theorem C4_witness:
  "d_type (candidate_msg (CandObject (empty_candidate\<lparr> candidate := Val ''candidate:1 1 udp 9 10.0.0.1 5000 typ host'' \<rparr>))) \<noteq> Val ''ready''
   \<and> no_remote_description offer_sent
   \<and> webrtc_signal env_ok ''p1''
       (candidate_msg (CandObject (empty_candidate\<lparr> candidate := Val ''candidate:1 1 udp 9 10.0.0.1 5000 typ host'' \<rparr>)))
       offer_sent = offer_sent"
proof -
  let ?d = "candidate_msg (CandObject (empty_candidate\<lparr> candidate := Val ''candidate:1 1 udp 9 10.0.0.1 5000 typ host'' \<rparr>))"
  have 1: "d_type ?d \<noteq> Val ''ready''" and 2: "d_type ?d \<noteq> Val ''answer''"
    by (simp_all add: candidate_msg_def)
  have 3: "no_remote_description offer_sent"
    by (simp add: no_remote_description_def scenario_defs RTCPeerConnection_def)
  from C4_candidate_before_remote_description_dropped [OF 1 2 3, of env_ok "''p1''"] 1 3
  show ?thesis by simp
qed

text \<open>
  C5, as the code has it. \<open>parseIceCandidate\<close> returns \<open>null\<close> on a string exactly when the
  grammar occurs at no position of the string; it is a total function of the string
  alone, so it neither throws nor touches the state; and the handlers that receive such
  a string as \<open>data.candidate\<close> leave the state unchanged (those of part_001 after
  decoding it, those of App.tsx because a string has no \<open>candidate\<close> field).
\<close>

theorem C5_malformed_legacy_candidate_discarded:
  "(parseIceCandidate (CandString str) = None \<longleftrightarrow> \<not> contains_legacy str)
   \<and> (\<not> contains_legacy str \<longrightarrow>
        (\<forall>e from data s.
            d_type data \<noteq> Val ''ready'' \<longrightarrow> d_type data \<noteq> Val ''answer'' \<longrightarrow>
            d_candidate data = Val (CandString str) \<longrightarrow>
            webrtc_signal e from data s = s \<and> webrtc_video_signal e from data s = s
            \<and> webrtc_signal_App e from data s = s \<and> webrtc_video_signal_App e from data s = s))"
proof -
  have iff: "parseIceCandidate (CandString str) = None \<longleftrightarrow> \<not> contains_legacy str"
    by (rule parseIceCandidate_None_legacy)
  have "\<forall>e from data s.
            d_type data \<noteq> Val ''ready'' \<longrightarrow> d_type data \<noteq> Val ''answer'' \<longrightarrow>
            d_candidate data = Val (CandString str) \<longrightarrow>
            webrtc_signal e from data s = s \<and> webrtc_video_signal e from data s = s
            \<and> webrtc_signal_App e from data s = s \<and> webrtc_video_signal_App e from data s = s"
    if "\<not> contains_legacy str"
  proof -
    from that iff have "parseIceCandidate (CandString str) = None" by simp
    then show ?thesis
      by (simp add: handler_defs candidate_branch_def candidate_branch_App_def
          split: option.splits)
  qed
  with iff show ?thesis by blast
qed

theorem C5_witness:
  "\<not> contains_legacy ''candidate:1 1 udp'' \<and> parseIceCandidate (CandString ''candidate:1 1 udp'') = None
   \<and> webrtc_signal env_ok ''p1'' (candidate_msg (CandString ''candidate:1 1 udp'')) audio_session
       = audio_session"
proof -
  have p: "parseIceCandidate (CandString ''candidate:1 1 udp'') = None" by code_simp
  have d: "d_type (candidate_msg (CandString ''candidate:1 1 udp'')) \<noteq> Val ''ready''"
    "d_type (candidate_msg (CandString ''candidate:1 1 udp'')) \<noteq> Val ''answer''"
    "d_candidate (candidate_msg (CandString ''candidate:1 1 udp''))
       = Val (CandString ''candidate:1 1 udp'')"
    by (simp_all add: candidate_msg_def)
  from C5_malformed_legacy_candidate_discarded [of "''candidate:1 1 udp''"] p d
  show ?thesis by blast
qed

text \<open>
  The claim as stated fails on a string that is not of the grammar but holds an instance
  of it after other text: the SDP attribute line \<open>a=candidate:...\<close> does not start with
  \<open>candidate:\<close>, yet \<open>parseIceCandidate\<close> decodes it (dropping the text in front), and in
  the connected audio call the handler gives the result to \<open>addIceCandidate\<close>.
\<close>

theorem C5_counterexample:
  "\<not> legacy_grammar prefixed_candidate
   \<and> parseIceCandidate (CandString prefixed_candidate)
       = Some \<lparr> candidate = Val ''candidate:1 1 udp 9 10.0.0.1 5000 typ host'',
                sdpMid = Val ''0'', sdpMLineIndex = Val (Exact 0), usernameFragment = Undefined \<rparr>
   \<and> map addIceCandidate_calls
       (pcs (webrtc_signal env_ok ''p1'' (candidate_msg (CandString prefixed_candidate))
               audio_session))
     = [[\<lparr> candidate = Val ''candidate:1 1 udp 9 10.0.0.1 5000 typ host'',
            sdpMid = Val ''0'', sdpMLineIndex = Val (Exact 0), usernameFragment = Undefined \<rparr>]]
   \<and> map addIceCandidate_calls (pcs audio_session) = [[]]"
proof -
  have g: "\<not> legacy_grammar prefixed_candidate"
    using legacy_grammar_starts [of prefixed_candidate] by (auto simp: prefixed_candidate_def)
  have p: "parseIceCandidate (CandString prefixed_candidate)
       = Some \<lparr> candidate = Val ''candidate:1 1 udp 9 10.0.0.1 5000 typ host'',
                sdpMid = Val ''0'', sdpMLineIndex = Val (Exact 0), usernameFragment = Undefined \<rparr>"
    unfolding prefixed_candidate_def by code_simp
  have ne: "prefixed_candidate \<noteq> []" by (simp add: prefixed_candidate_def)
  have h: "map addIceCandidate_calls
       (pcs (webrtc_signal env_ok ''p1'' (candidate_msg (CandString prefixed_candidate))
               audio_session))
     = [[\<lparr> candidate = Val ''candidate:1 1 udp 9 10.0.0.1 5000 typ host'',
            sdpMid = Val ''0'', sdpMLineIndex = Val (Exact 0), usernameFragment = Undefined \<rparr>]]"
    by (simp add: handler_defs candidate_branch_def p ne candidate_msg_def step_defs
        audio_session_def offer_sent_def awaiting_ready_def idle_def offered_pc_def env_ok_def)
  have e: "map addIceCandidate_calls (pcs audio_session) = [[]]"
    by (simp add: scenario_defs RTCPeerConnection_def)
  from g p h e show ?thesis by blast
qed

text \<open>
  C6. A structured candidate passes through \<open>parseIceCandidate\<close> unchanged, and nothing
  on the way validates its candidate string: in the connected audio call of part_001 the
  structured candidate with the empty candidate string reaches \<open>addIceCandidate\<close>. The
  candidate branch of App.tsx, on the same state and message, rejects it.
\<close>

theorem C6_empty_candidate_reaches_engine:
  "parseIceCandidate (CandObject empty_candidate) = Some empty_candidate
   \<and> map addIceCandidate_calls
       (pcs (webrtc_signal env_ok ''p1'' (candidate_msg (CandObject empty_candidate)) audio_session))
     = [[empty_candidate]]
   \<and> map addIceCandidate_calls (pcs audio_session) = [[]]
   \<and> webrtc_signal_App env_ok ''p1'' (candidate_msg (CandObject empty_candidate)) audio_session
     = audio_session"
  by (simp add: parseIceCandidate_def handler_defs candidate_branch_def candidate_branch_App_def
      step_defs scenario_defs)

subsection \<open>The media session\<close>

text \<open>
  The routing of inbound tracks. In part_001 an inbound audio track binds the audio sink
  to the first stream its event carries (\<open>event.streams[0]\<close>) and leaves the video sink
  alone; an inbound video track binds the video sink in the same way when the session
  mode is video, and no handler run touches the video sink otherwise; in an audio-only
  session an inbound video track changes nothing at all, whatever the event holds. In
  App.tsx an audio track is bound in a fresh stream of its own; the handler itself never
  binds the video sink (a timer does, 100 ms later), and a video track changes nothing
  while no video element is mounted, which is the case whenever the session is not an
  active video call.
\<close>

lemma track_routing:
  "(ev_kind ev = ''audio'' \<longrightarrow> audioRef s = Some el \<longrightarrow>
      audioRef (handleTrackReceived m ev s)
        = Some (el\<lparr> srcObject := remoteStream ev, play_calls := Suc (play_calls el) \<rparr>)
      \<and> videoRef (handleTrackReceived m ev s) = videoRef s)
   \<and> (ev_streams ev = x # xs \<longrightarrow> remoteStream ev = Some (RemoteStream x))
   \<and> (ev_kind ev = ''video'' \<longrightarrow> m \<longrightarrow> videoRef s = Some el \<longrightarrow>
      videoRef (handleTrackReceived m ev s)
        = Some (el\<lparr> srcObject := remoteStream ev, muted := True, listeners := True,
                   play_calls := Suc (play_calls el) \<rparr>)
      \<and> audioRef (handleTrackReceived m ev s) = audioRef s)
   \<and> (videoRef (handleTrackReceived m ev s) \<noteq> videoRef s \<longrightarrow> m \<and> ev_kind ev = ''video'')
   \<and> (ev_kind ev = ''video'' \<longrightarrow> \<not> m \<longrightarrow> handleTrackReceived m ev s = s)
   \<and> (ev_kind ev = ''audio'' \<longrightarrow> audioRef s = Some el \<longrightarrow>
      audioRef (handleTrackReceived_App ev s)
        = Some (el\<lparr> srcObject := Some (TrackStream (ev_track ev)),
                   play_calls := Suc (play_calls el) \<rparr>))
   \<and> videoRef (handleTrackReceived_App ev s) = videoRef s
   \<and> (ev_kind ev = ''video'' \<longrightarrow> videoRef s = None \<longrightarrow> handleTrackReceived_App ev s = s)
   \<and> (\<not> (isCallActive s \<and> isVideoCall s) \<longrightarrow>
        videoRef (render s) = None \<and> videoRef (render_App s) = None)"
  by (simp add: handleTrackReceived_def handleTrackReceived_App_def remoteStream_def render_defs
      Let_def)

lemma track_routing_example:
  "audioRef (handleTrackReceived False audio_track_event awaiting_ready)
       = Some (audio_element\<lparr> srcObject := Some (RemoteStream 7), play_calls := 1 \<rparr>)
   \<and> videoRef (handleTrackReceived True video_track_event video_awaiting_ready)
       = Some (video_element\<lparr> srcObject := Some (RemoteStream 7), listeners := True,
                 play_calls := 1 \<rparr>)
   \<and> handleTrackReceived False video_track_event audio_session = audio_session
   \<and> handleTrackReceived_App video_track_event audio_session_App = audio_session_App
   \<and> videoRef (render audio_session) = None"
  by (simp add: handleTrackReceived_def handleTrackReceived_App_def remoteStream_def render_defs
      Let_def scenario_defs)

text \<open>
  C7 at a concrete input: a track whose event carries no stream. In part_001 the sink is
  given \<open>event.streams[0]\<close>, which is undefined then: the mounted audio sink of the audio
  call that awaits the device ends with no source, and so does the mounted video sink of
  the video call, so the track is not attached. App.tsx, on the same audio event, binds
  the sink to a stream made around the track. For events that carry a stream the routing
  is the one the lemma above states.
\<close>

theorem C7_track_without_stream_not_attached:
  "audioRef awaiting_ready = Some audio_element
   \<and> audioRef (handleTrackReceived False
        \<lparr> ev_kind = ''audio'', ev_track = 0, ev_streams = [] \<rparr> awaiting_ready) \<noteq> None
   \<and> detached (audioRef (handleTrackReceived False
        \<lparr> ev_kind = ''audio'', ev_track = 0, ev_streams = [] \<rparr> awaiting_ready))
   \<and> videoRef video_awaiting_ready = Some video_element
   \<and> videoRef (handleTrackReceived True
        \<lparr> ev_kind = ''video'', ev_track = 1, ev_streams = [] \<rparr> video_awaiting_ready) \<noteq> None
   \<and> detached (videoRef (handleTrackReceived True
        \<lparr> ev_kind = ''video'', ev_track = 1, ev_streams = [] \<rparr> video_awaiting_ready))
   \<and> audioRef idle_App = Some audio_element
   \<and> audioRef (handleTrackReceived_App
        \<lparr> ev_kind = ''audio'', ev_track = 0, ev_streams = [] \<rparr> idle_App)
       = Some (audio_element\<lparr> srcObject := Some (TrackStream 0), play_calls := 1 \<rparr>)
   \<and> \<not> detached (audioRef (handleTrackReceived_App
        \<lparr> ev_kind = ''audio'', ev_track = 0, ev_streams = [] \<rparr> idle_App))"
  by (simp add: handleTrackReceived_def handleTrackReceived_App_def remoteStream_def
      detached_def Let_def scenario_defs)

lemma updateLevel_connected:
  "pc_connected s \<Longrightarrow> updateLevel level s = (s\<lparr> audioLevel := level \<rparr>, Some level, True)"
  by (simp add: updateLevel_def)

lemma updateLevel_not_connected:
  "\<not> pc_connected s \<Longrightarrow> updateLevel level s = (s, None, False)"
  by (simp add: updateLevel_def)

lemma monitor_runs:
  "(s0, smp, again) \<in> set (monitor frames s) \<Longrightarrow>
     (pc_connected s0 \<longrightarrow> smp \<noteq> None \<and> again) \<and> (\<not> pc_connected s0 \<longrightarrow> smp = None \<and> \<not> again)"
proof (induction frames arbitrary: s)
  case Nil
  then show ?case by simp
next
  case (Cons f frames)
  obtain between level where f: "f = (between, level)" by (cases f)
  show ?case
  proof (cases "pc_connected (between s)")
    case True
    with Cons f show ?thesis by (auto simp: updateLevel_connected Let_def)
  next
    case False
    with Cons.prems f show ?thesis by (auto simp: updateLevel_not_connected Let_def)
  qed
qed

lemma monitor_stops:
  "k < length (monitor frames s) \<Longrightarrow> \<not> pc_connected (fst (monitor frames s ! k)) \<Longrightarrow>
     length (monitor frames s) = Suc k"
proof (induction frames arbitrary: s k)
  case Nil
  then show ?case by simp
next
  case (Cons f frames)
  obtain between level where f: "f = (between, level)" by (cases f)
  show ?case
  proof (cases "pc_connected (between s)")
    case True
    show ?thesis
    proof (cases k)
      case 0
      with Cons.prems f True show ?thesis by (simp add: updateLevel_connected Let_def)
    next
      case (Suc k')
      with Cons.prems f True
      have "k' < length (monitor frames (between s\<lparr> audioLevel := level \<rparr>))"
        and "\<not> pc_connected (fst (monitor frames (between s\<lparr> audioLevel := level \<rparr>) ! k'))"
        by (simp_all add: updateLevel_connected Let_def)
      from Cons.IH [OF this] Suc f True show ?thesis
        by (simp add: updateLevel_connected Let_def)
    qed
  next
    case False
    with Cons.prems f show ?thesis by (simp add: updateLevel_not_connected Let_def)
  qed
qed

text \<open>
  C8, as the code has it. A run of \<open>updateLevel\<close> that finds the connection state other
  than \<open>connected\<close> (or no connection) produces no sample and requests no further frame;
  so in the loop, whatever the rest of the program does between the frames, every run
  that samples found the state \<open>connected\<close>, and the first run that does not find it so
  is the last run of the loop and produces nothing. The state is read only when a frame
  callback runs: what it was between two callbacks plays no part.
\<close>

theorem C8_sampling_only_while_connected:
  "(\<not> pc_connected s \<longrightarrow> updateLevel level s = (s, None, False))
   \<and> (\<forall>s0 smp again. (s0, smp, again) \<in> set (monitor frames s) \<longrightarrow>
         (smp \<noteq> None \<longrightarrow> pc_connected s0) \<and> (again \<longrightarrow> pc_connected s0)
         \<and> (\<not> pc_connected s0 \<longrightarrow> smp = None \<and> \<not> again))
   \<and> (\<forall>k. k < length (monitor frames s) \<longrightarrow> \<not> pc_connected (fst (monitor frames s ! k)) \<longrightarrow>
         length (monitor frames s) = Suc k)
   \<and> length (monitor frames s) \<le> length frames
   \<and> setupAudioLevelMonitoring frames s = monitor frames s"
proof -
  have len: "length (monitor frames s) \<le> length frames"
  proof (induction frames arbitrary: s)
    case Nil
    then show ?case by simp
  next
    case (Cons f frames)
    obtain between level where "f = (between, level)" by (cases f)
    with Cons show ?case by (simp add: Let_def)
  qed
  show ?thesis
    using monitor_runs [of _ _ _ frames s] monitor_stops [of _ frames s] len
    by (auto simp: updateLevel_not_connected setupAudioLevelMonitoring_def)
qed

theorem C8_witness:
  "pc_connected audio_session
   \<and> \<not> pc_connected (connectionstatechange 0 ''failed'' audio_session)
   \<and> map snd (monitor [(\<lambda>s. s, 40), (connectionstatechange 0 ''failed'', 50), (\<lambda>s. s, 60)]
        audio_session)
     = [(Some 40, True), (None, False)]
   \<and> updateLevel 50 (connectionstatechange 0 ''failed'' audio_session)
     = (connectionstatechange 0 ''failed'' audio_session, None, False)"
proof -
  have c: "pc_connected audio_session"
    and n: "\<not> pc_connected (connectionstatechange 0 ''failed'' audio_session)"
    and n': "\<not> pc_connected (connectionstatechange 0 ''failed'' (audio_session\<lparr> audioLevel := 40 \<rparr>))"
    by (simp_all add: pc_connected_def connectionstatechange_def onconnectionstatechange_def
        step_defs scenario_defs)
  have m: "map snd (monitor [(\<lambda>s. s, 40), (connectionstatechange 0 ''failed'', 50), (\<lambda>s. s, 60)]
        audio_session) = [(Some 40, True), (None, False)]"
    using c n' by (simp add: updateLevel_def Let_def)
  from C8_sampling_only_while_connected [of "connectionstatechange 0 ''failed'' audio_session" 50] c n m
  show ?thesis by simp
qed

text \<open>
  The claim as stated fails when the state leaves \<open>connected\<close> and is back before the
  next frame: the connection of the audio call reports \<open>disconnected\<close> and then
  \<open>connected\<close> between the first and the second frame, after the state has left
  \<open>connected\<close> the loop produces three further samples, and it is still scheduled.
\<close>

theorem C8_counterexample:
  "map snd (monitor [(\<lambda>s. s, 40), (blip, 50), (\<lambda>s. s, 60), (\<lambda>s. s, 70)] audio_session)
     = [(Some 40, True), (Some 50, True), (Some 60, True), (Some 70, True)]
   \<and> pc_connected audio_session
   \<and> \<not> pc_connected (connectionstatechange 0 ''disconnected'' (audio_session\<lparr> audioLevel := 40 \<rparr>))
   \<and> blip (audio_session\<lparr> audioLevel := 40 \<rparr>)
       = connectionstatechange 0 ''connected''
           (connectionstatechange 0 ''disconnected'' (audio_session\<lparr> audioLevel := 40 \<rparr>))
   \<and> pc_connected (blip (audio_session\<lparr> audioLevel := 40 \<rparr>))"
  by (simp add: updateLevel_def blip_def pc_connected_def connectionstatechange_def
      onconnectionstatechange_def step_defs scenario_defs)

subsection \<open>Capture failures and repeated \<open>ready\<close>\<close>

text \<open>
  C9, as the code has it. No failed capture is tried again: each path calls
  \<open>getUserMedia\<close> once and stores no stream. In \<open>startAudioCall\<close> of part_001 the failure
  ends the attempt: the status is the microphone message with the error's name and
  text, nothing is sent to the relay and the session flags are untouched, so no session
  becomes active. In the \<open>ready\<close> branch of the audio handler the failure lands in the
  handler's \<open>catch\<close>: the status is the connection-error message (with the error's text in
  part_001, without it in App.tsx), and \<open>isCallActive\<close> is left as it was.
\<close>

theorem C9_capture_failure:
  "startAudioCall (Inl err) s
     = s\<lparr> callStatus := ''Microphone error: '' @ err_name err @ '' - '' @ err_message err,
          getUserMedia_calls := Suc (getUserMedia_calls s) \<rparr>
   \<and> (\<not> isVideoCall s \<longrightarrow> d_type data = Val ''ready'' \<longrightarrow> getUserMedia_result e = Inl err \<longrightarrow>
        callStatus (webrtc_signal e from data s) = ''Audio connection error: '' @ err_message err
        \<and> callStatus (webrtc_signal_App e from data s) = ''Audio connection error''
        \<and> isCallActive (webrtc_signal e from data s) = isCallActive s
        \<and> isCallActive (webrtc_signal_App e from data s) = isCallActive s
        \<and> getUserMedia_calls (webrtc_signal e from data s) = Suc (getUserMedia_calls s)
        \<and> getUserMedia_calls (webrtc_signal_App e from data s) = Suc (getUserMedia_calls s)
        \<and> local_streams (webrtc_signal e from data s) = local_streams s
        \<and> local_streams (webrtc_signal_App e from data s) = local_streams s
        \<and> localStreamRef (webrtc_signal e from data s) = localStreamRef s
        \<and> localStreamRef (webrtc_signal_App e from data s) = localStreamRef s
        \<and> emitted (webrtc_signal e from data s) = emitted s
        \<and> emitted (webrtc_signal_App e from data s) = emitted s)"
  by (simp add: startAudioCall_def handler_defs new_connection_def capture_and_add_def
      setCallStatus_def Let_def)

theorem C9_witness:
  "\<not> isVideoCall awaiting_ready \<and> d_type ready_msg = Val ''ready''
   \<and> getUserMedia_result env_denied = Inl permission_denied
   \<and> callStatus (startAudioCall (Inl permission_denied) idle)
       = ''Microphone error: NotAllowedError - Permission denied''
   \<and> \<not> isCallActive (startAudioCall (Inl permission_denied) idle)
   \<and> emitted (startAudioCall (Inl permission_denied) idle) = []
   \<and> getUserMedia_calls (webrtc_signal env_denied ''p1'' ready_msg awaiting_ready) = 2"
proof -
  have h: "\<not> isVideoCall awaiting_ready" "d_type ready_msg = Val ''ready''"
    "getUserMedia_result env_denied = Inl permission_denied"
    "getUserMedia_calls awaiting_ready = 1"
    by (simp_all add: scenario_defs)
  have a: "startAudioCall (Inl permission_denied) idle
     = idle\<lparr> callStatus := ''Microphone error: '' @ err_name permission_denied @ '' - ''
                             @ err_message permission_denied,
             getUserMedia_calls := Suc (getUserMedia_calls idle) \<rparr>"
    using C9_capture_failure [of permission_denied idle] by blast
  have b: "getUserMedia_calls (webrtc_signal env_denied ''p1'' ready_msg awaiting_ready)
     = Suc (getUserMedia_calls awaiting_ready)"
    using C9_capture_failure [of permission_denied awaiting_ready ready_msg env_denied "''p1''"] h
    by blast
  from h b show ?thesis by (simp add: a) (simp add: scenario_defs)
qed

text \<open>
  The claim as stated fails where the capture is made in the \<open>ready\<close> branch: the call
  that awaits the device stays active after the failure, and the status is the
  connection-error message of the handler's \<open>catch\<close>, in both variants.
\<close>

theorem C9_counterexample:
  "isCallActive awaiting_ready
   \<and> isCallActive (webrtc_signal env_denied ''p1'' ready_msg awaiting_ready)
   \<and> callStatus (webrtc_signal env_denied ''p1'' ready_msg awaiting_ready)
       = ''Audio connection error: Permission denied''
   \<and> isCallActive (webrtc_signal_App env_denied ''p1'' ready_msg awaiting_ready)
   \<and> callStatus (webrtc_signal_App env_denied ''p1'' ready_msg awaiting_ready)
       = ''Audio connection error''"
  by (simp add: handler_defs new_connection_def capture_and_add_def setCallStatus_def Let_def
      scenario_defs)

lemma ready_audio_body:
  "let r = (let s1 = new_connection servers ((setCallStatus msg s)\<lparr> storage := Some peer \<rparr>)
            in case capture_and_add e (length (pcs s)) s1 of
                 (s2, Some err) \<Rightarrow> (s2, Some err)
               | (s2, None) \<Rightarrow>
                   send_offer e (length (pcs s)) ''webrtc-signal'' peer ''Audio offer sent...''
                     (upd_pc (length (pcs s)) (install_handlers peer False) s2))
   in pcRef (fst r) = Some (length (pcs s)) \<and> length (pcs (fst r)) = Suc (length (pcs s))
      \<and> take (length (pcs s)) (pcs (fst r)) = pcs s
      \<and> \<not> closed (pcs (fst r) ! length (pcs s))
      \<and> iceServers (pcs (fst r) ! length (pcs s)) = servers
      \<and> connectionState (pcs (fst r) ! length (pcs s)) = ''new''
      \<and> remoteDescription (pcs (fst r) ! length (pcs s)) = None
      \<and> take (length (local_streams s)) (local_streams (fst r)) = local_streams s"
  by (auto simp: Let_def new_connection_def setCallStatus_def capture_and_add_def upd_pc_def
      send_offer_def emit_def install_handlers_def RTCPeerConnection_def nth_append
      split: sum.splits prod.splits option.splits)

lemma ready_video_body:
  "let r = (let s1 = new_connection servers ((setCallStatus msg s)\<lparr> storage := Some peer \<rparr>)
            in send_offer e (length (pcs s)) ''webrtc-video-signal'' peer ''Video offer sent...''
                 (upd_pc (length (pcs s)) (install_handlers peer True) s1))
   in pcRef (fst r) = Some (length (pcs s)) \<and> length (pcs (fst r)) = Suc (length (pcs s))
      \<and> take (length (pcs s)) (pcs (fst r)) = pcs s
      \<and> \<not> closed (pcs (fst r) ! length (pcs s))
      \<and> iceServers (pcs (fst r) ! length (pcs s)) = servers
      \<and> connectionState (pcs (fst r) ! length (pcs s)) = ''new''
      \<and> remoteDescription (pcs (fst r) ! length (pcs s)) = None
      \<and> local_streams (fst r) = local_streams s"
  by (auto simp: Let_def new_connection_def setCallStatus_def upd_pc_def send_offer_def
      emit_def install_handlers_def RTCPeerConnection_def nth_append split: sum.splits)

lemma take_nth_same:
  "take n xs = ys \<Longrightarrow> i < length ys \<Longrightarrow> xs ! i = ys ! i"
  by (metis nth_take length_take min_less_iff_conj)

text \<open>
  C10. When \<open>ready\<close> arrives while \<open>pcRef\<close> points to a connection, each of the four
  handlers (the audio ones in an audio session, the video ones in a video session)
  creates a connection: the store holds one object more, at a fresh address, open, in
  state \<open>new\<close>, with the variant's servers and no remote description, and \<open>pcRef\<close> points to
  it. Every object that was in the store, the one \<open>pcRef\<close> pointed to among them, is
  exactly as it was, so it is not closed if it was open; and every local stream that
  existed is as it was, so no track of the previous capture is stopped.
\<close>

theorem C10_second_ready_abandons_connection:
  assumes "pcRef s = Some i" and "i < length (pcs s)" and "d_type data = Val ''ready''"
  shows "(\<not> isVideoCall s \<longrightarrow>
            fresh_connection iceServers_p1 s (webrtc_signal e from data s)
            \<and> pcs (webrtc_signal e from data s) ! i = pcs s ! i
            \<and> take (length (local_streams s)) (local_streams (webrtc_signal e from data s))
                = local_streams s
            \<and> fresh_connection iceServers_App s (webrtc_signal_App e from data s)
            \<and> pcs (webrtc_signal_App e from data s) ! i = pcs s ! i
            \<and> take (length (local_streams s)) (local_streams (webrtc_signal_App e from data s))
                = local_streams s)
       \<and> (isVideoCall s \<longrightarrow>
            fresh_connection iceServers_p1 s (webrtc_video_signal e from data s)
            \<and> pcs (webrtc_video_signal e from data s) ! i = pcs s ! i
            \<and> local_streams (webrtc_video_signal e from data s) = local_streams s
            \<and> fresh_connection iceServers_App s (webrtc_video_signal_App e from data s)
            \<and> pcs (webrtc_video_signal_App e from data s) ! i = pcs s ! i
            \<and> local_streams (webrtc_video_signal_App e from data s) = local_streams s)
       \<and> length (pcs s) \<noteq> i"
proof -
  let ?n = "length (pcs s)"
  have ne: "?n \<noteq> i" using assms(2) by simp
  have a1: "\<not> isVideoCall s \<longrightarrow>
            fresh_connection iceServers_p1 s (webrtc_signal e from data s)
            \<and> take (length (local_streams s)) (local_streams (webrtc_signal e from data s))
                = local_streams s"
    using ready_audio_body [where servers = iceServers_p1 and msg = "''Dashcam ready - Creating audio offer...''" and s = s and peer = "from" and e = e]
      assms(3)
    by (auto simp: webrtc_signal_def webrtc_signal_try_def fresh_connection_def Let_def
        setCallStatus_def split: prod.splits option.splits)
  have a2: "\<not> isVideoCall s \<longrightarrow>
            fresh_connection iceServers_App s (webrtc_signal_App e from data s)
            \<and> take (length (local_streams s)) (local_streams (webrtc_signal_App e from data s))
                = local_streams s"
    using ready_audio_body [where servers = iceServers_App and msg = "''Dashcam ready - Creating audio offer...''" and s = s and peer = "from" and e = e]
      assms(3)
    by (auto simp: webrtc_signal_App_def webrtc_signal_try_App_def fresh_connection_def Let_def
        setCallStatus_def split: prod.splits option.splits)
  have v1: "isVideoCall s \<longrightarrow>
            fresh_connection iceServers_p1 s (webrtc_video_signal e from data s)
            \<and> local_streams (webrtc_video_signal e from data s) = local_streams s"
    using ready_video_body [where servers = iceServers_p1 and msg = "''Dashcam ready - Creating video offer...''" and s = s and peer = "from" and e = e]
      assms(3)
    by (auto simp: webrtc_video_signal_def webrtc_video_signal_try_def fresh_connection_def
        Let_def setCallStatus_def split: prod.splits option.splits)
  have v2: "isVideoCall s \<longrightarrow>
            fresh_connection iceServers_App s (webrtc_video_signal_App e from data s)
            \<and> local_streams (webrtc_video_signal_App e from data s) = local_streams s"
    using ready_video_body [where servers = iceServers_App and msg = "''Dashcam ready - Creating video offer...''" and s = s and peer = "from" and e = e]
      assms(3)
    by (auto simp: webrtc_video_signal_App_def webrtc_video_signal_try_App_def
        fresh_connection_def Let_def setCallStatus_def split: prod.splits option.splits)
  have old: "pcs s' ! i = pcs s ! i" if "fresh_connection servers s s'" for servers s'
    using that assms(2) by (auto simp: fresh_connection_def dest: take_nth_same)
  from a1 a2 v1 v2 ne old show ?thesis by blast
qed

theorem C10_witness:
  "pcRef audio_session = Some 0 \<and> 0 < length (pcs audio_session)
   \<and> d_type ready_msg = Val ''ready'' \<and> \<not> isVideoCall audio_session
   \<and> fresh_connection iceServers_p1 audio_session
       (webrtc_signal env_ok ''p2'' ready_msg audio_session)
   \<and> pcRef (webrtc_signal env_ok ''p2'' ready_msg audio_session) = Some 1
   \<and> length (pcs (webrtc_signal env_ok ''p2'' ready_msg audio_session)) = 2
   \<and> \<not> closed (pcs (webrtc_signal env_ok ''p2'' ready_msg audio_session) ! 0)
   \<and> \<not> closed (pcs (webrtc_signal env_ok ''p2'' ready_msg audio_session) ! 1)
   \<and> take 2 (local_streams (webrtc_signal env_ok ''p2'' ready_msg audio_session)) = [[mic], [mic]]
   \<and> \<not> stopped mic"
proof -
  have h: "pcRef audio_session = Some 0" "0 < length (pcs audio_session)"
    "d_type ready_msg = Val ''ready''" "\<not> isVideoCall audio_session"
    "length (pcs audio_session) = 1" "\<not> closed (pcs audio_session ! 0)"
    "local_streams audio_session = [[mic], [mic]]" "\<not> stopped mic"
    by (simp_all add: scenario_defs RTCPeerConnection_def)
  from C10_second_ready_abandons_connection [OF h(1) h(2) h(3), of env_ok "''p2''"] h
  show ?thesis by (simp add: fresh_connection_def numeral_2_eq_2)
qed

end
